theory Spec2Isabelle
  imports Complex_Main "HOL-Library.Log_Nat"
begin

section \<open>Values: errors, scalars, tensors\<close>

text \<open>
  The Python exceptions that \<open>threestudio/systems/latentnerf.py\<close> can raise, either
  explicitly (\<open>raise ValueError\<close>) or through a dictionary, attribute or tensor
  operation of the runtime.
\<close>

datatype error =
    ValueError string
  | KeyError string
  | AttributeError string
  | TypeError string
  | IndexError string
  | RuntimeError string

text \<open>
  A scalar floating-point result: a finite value or one of the three special values,
  which are what a tensor division by a zero count produces (\<open>x / 0\<close> is \<open>inf\<close>,
  \<open>-inf\<close> or \<open>nan\<close>; torch raises nothing there) and what an overflow produces.
  \<open>fl_add\<close>, \<open>fl_scale\<close> and \<open>fl_div\<close> are exact on finite values; the operations
  that round follow below.
\<close>

datatype fl = Fin real | PInf | NInf | NaN

fun fl_add :: "fl \<Rightarrow> fl \<Rightarrow> fl" where
  "fl_add (Fin a) (Fin b) = Fin (a + b)"
| "fl_add (Fin a) PInf = PInf"
| "fl_add (Fin a) NInf = NInf"
| "fl_add (Fin a) NaN = NaN"
| "fl_add PInf (Fin b) = PInf"
| "fl_add PInf PInf = PInf"
| "fl_add PInf NInf = NaN"
| "fl_add PInf NaN = NaN"
| "fl_add NInf (Fin b) = NInf"
| "fl_add NInf PInf = NaN"
| "fl_add NInf NInf = NInf"
| "fl_add NInf NaN = NaN"
| "fl_add NaN b = NaN"

text \<open>A scalar tensor times a Python float (\<open>loss_x * self.C(...)\<close>).\<close>

fun fl_scale :: "fl \<Rightarrow> real \<Rightarrow> fl" where
  "fl_scale (Fin a) c = Fin (a * c)"
| "fl_scale PInf c = (if 0 < c then PInf else if c < 0 then NInf else NaN)"
| "fl_scale NInf c = (if 0 < c then NInf else if c < 0 then PInf else NaN)"
| "fl_scale NaN c = NaN"

definition fl_div :: "real \<Rightarrow> real \<Rightarrow> fl" where
  "fl_div a b =
     (if b \<noteq> 0 then Fin (a / b)
      else if 0 < a then PInf else if a < 0 then NInf else NaN)"

fun is_finite :: "fl \<Rightarrow> bool" where
  "is_finite (Fin a) = True"
| "is_finite PInf = False"
| "is_finite NInf = False"
| "is_finite NaN = False"

text \<open>The order of floating-point values; \<open>nan\<close> compares with nothing.\<close>

fun fl_le :: "fl \<Rightarrow> fl \<Rightarrow> bool" where
  "fl_le (Fin a) (Fin b) = (a \<le> b)"
| "fl_le (Fin a) PInf = True"
| "fl_le (Fin a) NInf = False"
| "fl_le PInf (Fin b) = False"
| "fl_le PInf PInf = True"
| "fl_le PInf NInf = False"
| "fl_le NInf (Fin b) = True"
| "fl_le NInf PInf = True"
| "fl_le NInf NInf = True"
| "fl_le NaN b = False"
| "fl_le a NaN = False"

subsection \<open>Single precision\<close>

text \<open>
  The tensors of the render output are \<open>float32\<close>, torch's default type. Where the
  value of a term depends on the rounding, the operations are those of IEEE 754
  binary32: 24 bits of precision, exponents from \<open>-126\<close> to \<open>127\<close>, rounding to the
  nearest value with ties to the even one, overflow to infinity. The sparsity term of
  line 114 and the clamp bounds of line 118 are computed so; the other terms are
  stated of the values as real numbers.

  \<open>f32_exponent a\<close> is the binary exponent of \<open>a > 0\<close>, the \<open>e\<close> with
  \<open>2\<^sup>e \<le> a < 2\<^sup>e\<^sup>+\<^sup>1\<close>; \<open>rne\<close> rounds to the nearest integer, ties to even;
  \<open>f32_quantum x\<close> is the distance between neighbouring values at the magnitude of
  \<open>x\<close>.
\<close>

definition f32_exponent :: "real \<Rightarrow> int" where
  "f32_exponent a = (if 1 \<le> a then bitlen \<lfloor>a\<rfloor> - 1 else - bitlen (\<lceil>1 / a\<rceil> - 1))"

definition rne :: "real \<Rightarrow> int" where
  "rne y =
     (let n = \<lfloor>y\<rfloor> in
      if y - of_int n < 1 / 2 then n
      else if 1 / 2 < y - of_int n then n + 1
      else if even n then n else n + 1)"

definition f32_quantum :: "real \<Rightarrow> real" where
  "f32_quantum x = 2 powi (max (f32_exponent \<bar>x\<bar>) (- 126) - 23)"

definition f32_pack :: "int \<Rightarrow> real \<Rightarrow> fl" where
  "f32_pack m q =
     (let r = of_int m * q
      in if 2 ^ 128 \<le> r then PInf else if r \<le> - (2 ^ 128) then NInf else Fin r)"

text \<open>The \<open>float32\<close> value nearest to a real number.\<close>

definition f32_round :: "real \<Rightarrow> fl" where
  "f32_round x =
     (if x = 0 then Fin 0 else let q = f32_quantum x in f32_pack (rne (x / q)) q)"

text \<open>
  A Python scalar as an operand of a \<open>float32\<close> tensor operation: it is converted to
  \<open>float32\<close>. (The scalars of the source are far from overflow.)
\<close>

definition f32_value :: "real \<Rightarrow> real" where
  "f32_value x = (case f32_round x of Fin r \<Rightarrow> r | PInf \<Rightarrow> x | NInf \<Rightarrow> x | NaN \<Rightarrow> x)"

fun f32_add :: "fl \<Rightarrow> fl \<Rightarrow> fl" where
  "f32_add (Fin a) (Fin b) = f32_round (a + b)"
| "f32_add (Fin a) PInf = PInf"
| "f32_add (Fin a) NInf = NInf"
| "f32_add (Fin a) NaN = NaN"
| "f32_add PInf (Fin b) = PInf"
| "f32_add PInf PInf = PInf"
| "f32_add PInf NInf = NaN"
| "f32_add PInf NaN = NaN"
| "f32_add NInf (Fin b) = NInf"
| "f32_add NInf PInf = NaN"
| "f32_add NInf NInf = NInf"
| "f32_add NInf NaN = NaN"
| "f32_add NaN b = NaN"

fun f32_mul :: "fl \<Rightarrow> fl \<Rightarrow> fl" where
  "f32_mul (Fin a) (Fin b) = f32_round (a * b)"
| "f32_mul (Fin a) PInf = (if 0 < a then PInf else if a < 0 then NInf else NaN)"
| "f32_mul (Fin a) NInf = (if 0 < a then NInf else if a < 0 then PInf else NaN)"
| "f32_mul (Fin a) NaN = NaN"
| "f32_mul PInf (Fin b) = (if 0 < b then PInf else if b < 0 then NInf else NaN)"
| "f32_mul PInf PInf = PInf"
| "f32_mul PInf NInf = NInf"
| "f32_mul PInf NaN = NaN"
| "f32_mul NInf (Fin b) = (if 0 < b then NInf else if b < 0 then PInf else NaN)"
| "f32_mul NInf PInf = NInf"
| "f32_mul NInf NInf = PInf"
| "f32_mul NInf NaN = NaN"
| "f32_mul NaN b = NaN"

fun f32_div :: "fl \<Rightarrow> fl \<Rightarrow> fl" where
  "f32_div (Fin a) (Fin b) =
     (if b \<noteq> 0 then f32_round (a / b)
      else if 0 < a then PInf else if a < 0 then NInf else NaN)"
| "f32_div (Fin a) PInf = Fin 0"
| "f32_div (Fin a) NInf = Fin 0"
| "f32_div (Fin a) NaN = NaN"
| "f32_div PInf (Fin b) = (if 0 \<le> b then PInf else NInf)"
| "f32_div PInf PInf = NaN"
| "f32_div PInf NInf = NaN"
| "f32_div PInf NaN = NaN"
| "f32_div NInf (Fin b) = (if 0 \<le> b then NInf else PInf)"
| "f32_div NInf PInf = NaN"
| "f32_div NInf NInf = NaN"
| "f32_div NInf NaN = NaN"
| "f32_div NaN b = NaN"

text \<open>
  The square root, correctly rounded as IEEE 754 requires. It works on integers: the
  argument is scaled by the square of the quantum of the result, \<open>isqrt\<close> gives the
  integer part of the root, and the comparison with the square of the midpoint
  decides the rounding.
\<close>

fun isqrt :: "nat \<Rightarrow> nat" where
  "isqrt n =
     (if n = 0 then 0
      else let r = 2 * isqrt (n div 4) in if (r + 1) ^ 2 \<le> n then r + 1 else r)"

declare isqrt.simps [simp del]

definition rne_sqrt :: "real \<Rightarrow> int" where
  "rne_sqrt y =
     (let n = int (isqrt (nat \<lfloor>y\<rfloor>)); h = (of_int n + 1 / 2) ^ 2 in
      if y < h then n
      else if h < y then n + 1
      else if even n then n else n + 1)"

fun f32_sqrt :: "fl \<Rightarrow> fl" where
  "f32_sqrt (Fin a) =
     (if a < 0 then NaN
      else if a = 0 then Fin 0
      else let q = 2 powi (max (f32_exponent a div 2) (- 126) - 23)
           in f32_pack (rne_sqrt (a / (q * q))) q)"
| "f32_sqrt PInf = PInf"
| "f32_sqrt NInf = NaN"
| "f32_sqrt NaN = NaN"

text \<open>
  \<open>t.mean()\<close> of a \<open>float32\<close> tensor: the sum, accumulated in \<open>float32\<close>, divided
  by the number of elements as a \<open>float32\<close>. The elements are added in index order,
  as the CPU kernel does for a short tensor; for a long one torch adds them in blocks,
  and the last bit of the sum depends on the device. The mean of no element is
  \<open>0 / 0\<close>, which is \<open>nan\<close>.
\<close>

definition f32_mean :: "fl list \<Rightarrow> fl" where
  "f32_mean xs = f32_div (foldl f32_add (Fin 0) xs) (f32_round (real (length xs)))"

subsection \<open>Tensors\<close>

text \<open>
  A tensor: its shape and its elements in row-major order. A well-formed tensor has
  as many elements as its shape says. The elements are the values the \<open>float32\<close>
  tensor holds.
\<close>

record tensor =
  shape :: "nat list"
  data :: "real list"

definition wf_tensor :: "tensor \<Rightarrow> bool" where
  "wf_tensor t = (length (data t) = prod_list (shape t))"

definition tmap :: "(real \<Rightarrow> real) \<Rightarrow> tensor \<Rightarrow> tensor" where
  "tmap f t = t\<lparr>data := map f (data t)\<rparr>"

text \<open>\<open>detach\<close> cuts the gradient and leaves the values.\<close>

definition detach :: "tensor \<Rightarrow> tensor" where
  "detach t = t"

definition clamp_min :: "real \<Rightarrow> tensor \<Rightarrow> tensor" where
  "clamp_min lo t = tmap (\<lambda>x. max x lo) t"

definition clamp :: "real \<Rightarrow> real \<Rightarrow> tensor \<Rightarrow> tensor" where
  "clamp lo hi t = tmap (\<lambda>x. min (max x lo) hi) t"

definition tsquare :: "tensor \<Rightarrow> tensor" where
  "tsquare t = tmap (\<lambda>x. x ^ 2) t"

definition tsum :: "tensor \<Rightarrow> real" where
  "tsum t = sum_list (data t)"

definition numel :: "tensor \<Rightarrow> nat" where
  "numel t = length (data t)"

text \<open>\<open>(t > 0).sum()\<close>: the number of elements greater than zero.\<close>

definition count_gt0 :: "tensor \<Rightarrow> nat" where
  "count_gt0 t = length (filter (\<lambda>x. 0 < x) (data t))"

subsection \<open>Indexing and broadcasting\<close>

fun unravel :: "nat list \<Rightarrow> nat \<Rightarrow> nat list" where
  "unravel [] i = []"
| "unravel (d # ds) i = (i div prod_list ds) # unravel ds (i mod prod_list ds)"

fun ravel :: "nat list \<Rightarrow> nat list \<Rightarrow> nat" where
  "ravel (d # ds) (j # js) = j * prod_list ds + ravel ds js"
| "ravel ds js = 0"

text \<open>Shapes are aligned at their last dimension; a dimension of size 1 stretches.\<close>

fun bshape_rev :: "nat list \<Rightarrow> nat list \<Rightarrow> nat list option" where
  "bshape_rev [] ys = Some ys"
| "bshape_rev (x # xs) [] = Some (x # xs)"
| "bshape_rev (x # xs) (y # ys) =
     (if x = y \<or> y = 1 then map_option ((#) x) (bshape_rev xs ys)
      else if x = 1 then map_option ((#) y) (bshape_rev xs ys)
      else None)"

definition broadcast_shapes :: "nat list \<Rightarrow> nat list \<Rightarrow> nat list option" where
  "broadcast_shapes a b = map_option rev (bshape_rev (rev a) (rev b))"

definition src_index :: "nat list \<Rightarrow> nat list \<Rightarrow> nat" where
  "src_index s idx =
     ravel s (map2 (\<lambda>d j. if d = 1 then 0 else j) s (drop (length idx - length s) idx))"

definition tbinop :: "(real \<Rightarrow> real \<Rightarrow> real) \<Rightarrow> tensor \<Rightarrow> tensor \<Rightarrow> error + tensor" where
  "tbinop f a b =
     (case broadcast_shapes (shape a) (shape b) of
        None \<Rightarrow> Inl (RuntimeError ''The size of tensor a must match the size of tensor b'')
      | Some s \<Rightarrow>
          Inr \<lparr>shape = s,
               data = map (\<lambda>i. f (data a ! src_index (shape a) (unravel s i))
                                 (data b ! src_index (shape b) (unravel s i)))
                          [0..<prod_list s]\<rparr>)"

definition tmul :: "tensor \<Rightarrow> tensor \<Rightarrow> error + tensor" where
  "tmul a b = tbinop (*) a b"

text \<open>\<open>torch.sum(t, -1, keepdim=True)\<close>.\<close>

definition sum_last_keepdim :: "tensor \<Rightarrow> tensor" where
  "sum_last_keepdim t =
     (if shape t = [] then t
      else let k = last (shape t); n = prod_list (butlast (shape t))
           in \<lparr>shape = butlast (shape t) @ [1],
               data = map (\<lambda>i. sum_list (take k (drop (i * k) (data t)))) [0..<n]\<rparr>)"

text \<open>
  \<open>t.permute(*dims)\<close>: dimension \<open>k\<close> of the result is dimension \<open>dims ! k\<close> of
  \<open>t\<close>; \<open>dims\<close> has to be a permutation of the dimensions of \<open>t\<close>.
\<close>

definition permute :: "nat list \<Rightarrow> tensor \<Rightarrow> error + tensor" where
  "permute dims t =
     (if sort dims \<noteq> [0..<length (shape t)]
      then Inl (RuntimeError ''permute: dims do not match the tensor'')
      else let s = map (\<lambda>d. shape t ! d) dims
           in Inr \<lparr>shape = s,
                   data = map (\<lambda>i. data t !
                                 ravel (shape t)
                                   (map (\<lambda>j. unravel s i ! length (takeWhile (\<lambda>d. d \<noteq> j) dims))
                                        [0..<length (shape t)]))
                              [0..<prod_list s]\<rparr>)"

section \<open>Helpers of \<open>threestudio.utils.ops\<close>\<close>

text \<open>
  Modelled from the spec: \<open>dot\<close> of \<open>threestudio.utils.ops\<close> is imported by the source
  and not part of it. The spec calls it "the dot product between normal and ray
  direction", one value per sample: the product summed over the last dimension, which
  is kept with size 1.
\<close>

definition dot :: "tensor \<Rightarrow> tensor \<Rightarrow> error + tensor" where
  "dot x y = (case tmul x y of Inl e \<Rightarrow> Inl e | Inr p \<Rightarrow> Inr (sum_last_keepdim p))"

text \<open>
  Modelled from the spec: \<open>binary_cross_entropy\<close> of \<open>threestudio.utils.ops\<close> is
  imported by the source and not part of it. The spec calls it "the binary
  cross-entropy of the clamped opacity against itself": the mean over the elements of
  \<open>-(t * log x + (1 - t) * log (1 - x))\<close>, for input \<open>x\<close> and target \<open>t\<close> of one shape.
  The source applies it to values clamped into \<open>[1e-3, 1 - 1e-3]\<close>, where both
  logarithms are finite. It is the cross-entropy as a function of real numbers: how
  the missing helper and \<open>torch.log\<close> round is no part of the spec's words.
\<close>

definition bce_elem :: "real \<Rightarrow> real \<Rightarrow> real" where
  "bce_elem x t = - (t * ln x + (1 - t) * ln (1 - x))"

definition binary_cross_entropy :: "tensor \<Rightarrow> tensor \<Rightarrow> fl" where
  "binary_cross_entropy inp target =
     fl_div (sum_list (map2 bce_elem (data inp) (data target))) (real (numel inp))"

section \<open>Checkpoint filtering\<close>

text \<open>Python's \<open>s.split(sep)\<close> for a separator of one character.\<close>

fun split_on :: "char \<Rightarrow> string \<Rightarrow> string list" where
  "split_on sep [] = [[]]"
| "split_on sep (c # cs) =
     (if c = sep then [] # split_on sep cs
      else (c # hd (split_on sep cs)) # tl (split_on sep cs))"

record 'v checkpoint =
  state_dict :: "(string \<times> 'v) list"

text \<open>
  \<open>LatentNeRF.on_save_checkpoint\<close>. The dictionary comprehension keeps the entries
  in order; \<open>base\<close> is \<open>BaseSystem.on_save_checkpoint\<close>, which receives the filtered
  checkpoint.
\<close>

definition on_save_checkpoint ::
  "(('v, 'x) checkpoint_scheme \<Rightarrow> 'r) \<Rightarrow> ('v, 'x) checkpoint_scheme \<Rightarrow> 'r" where
  "on_save_checkpoint base checkpoint =
     base (checkpoint\<lparr>state_dict :=
       filter (\<lambda>(k, v). hd (split_on CHR ''.'' k) \<notin> set [''prompt_processor'', ''guidance''])
              (state_dict checkpoint)\<rparr>)"

section \<open>The controller\<close>

text \<open>
  \<open>LatentNeRF.Config\<close>, as far as the hooks and the steps read it. \<open>cfg_loss\<close> is
  \<open>cfg.loss\<close>: named weights, each a constant or a schedule (\<open>'w\<close>) that \<open>self.C\<close>
  evaluates at the current step.
\<close>

record ('o, 'w) config =
  guidance_type :: string
  cfg_guidance :: 'o
  prompt_processor_type :: string
  cfg_prompt_processor :: 'o
  guide_shape :: "string option"
  refinement :: bool
  cfg_loss :: "(string \<times> 'w) list"

type_synonym render_out = "string \<rightharpoonup> tensor"

text \<open>
  The guidance contract: callable on (rendered colour, text embedding, latents flag),
  giving a dictionary of scalars; and \<open>decode_latents\<close>.
\<close>

record 'e guidance_model =
  guide :: "tensor \<Rightarrow> 'e \<Rightarrow> bool \<Rightarrow> (string \<rightharpoonup> fl)"
  decode_latents :: "tensor \<Rightarrow> tensor"

text \<open>
  \<open>threestudio.find\<close>: the registry of constructors by type-tag (\<open>__modules__[name]\<close>,
  a \<open>KeyError\<close> for a name that is not registered).
\<close>

record ('b, 'e, 'o) registry =
  find_guidance :: "string \<rightharpoonup> ('o \<Rightarrow> 'e guidance_model)"
  find_prompt_processor :: "string \<rightharpoonup> ('o \<Rightarrow> ('b \<Rightarrow> 'e))"

text \<open>
  What the hooks do besides changing attributes: the constructions they run, each
  with the type-tag that was looked up.
\<close>

datatype event = Construct_guidance string | Construct_prompt_processor string

text \<open>
  The attributes of the controller. \<open>prompt_processor\<close> and \<open>shape_loss\<close> are
  \<open>None\<close> while the attribute does not exist; \<open>guidance\<close> is \<open>None\<close> when the
  attribute holds Python's \<open>None\<close>. \<open>trace\<close> records the constructions in order.
\<close>

record ('b, 'e, 'o, 'w) system =
  cfg :: "('o, 'w) config"
  renderer :: "'b \<Rightarrow> render_out"
  guidance :: "'e guidance_model option"
  prompt_processor :: "('b \<Rightarrow> 'e) option"
  shape_loss :: "(tensor \<Rightarrow> tensor \<Rightarrow> fl) option"
  trace :: "event list"

text \<open>
  \<open>LatentNeRF.configure\<close>, with the renderer (built from geometry, material and
  background) and the \<open>ShapeLoss\<close> constructor given.
\<close>

definition configure ::
  "('o, 'w) config \<Rightarrow> ('b \<Rightarrow> render_out) \<Rightarrow> (string \<Rightarrow> tensor \<Rightarrow> tensor \<Rightarrow> fl)
     \<Rightarrow> ('b, 'e, 'o, 'w) system" where
  "configure c rend ShapeLoss =
     \<lparr>cfg = c, renderer = rend, guidance = None, prompt_processor = None,
      shape_loss = map_option ShapeLoss (guide_shape c), trace = []\<rparr>"

definition setup_guidance ::
  "('b, 'e, 'o) registry \<Rightarrow> ('b, 'e, 'o, 'w) system \<Rightarrow> error + ('b, 'e, 'o, 'w) system" where
  "setup_guidance reg s =
     (if guidance s = None then
        (case find_guidance reg (guidance_type (cfg s)) of
           None \<Rightarrow> Inl (KeyError (guidance_type (cfg s)))
         | Some mk \<Rightarrow>
             Inr (s\<lparr>guidance := Some (mk (cfg_guidance (cfg s))),
                    trace := trace s @ [Construct_guidance (guidance_type (cfg s))]\<rparr>))
      else Inr s)"

definition lookup :: "(string \<rightharpoonup> 'a) \<Rightarrow> string \<Rightarrow> error + 'a" where
  "lookup d k = (case d k of None \<Rightarrow> Inl (KeyError k) | Some v \<Rightarrow> Inr v)"

definition forward ::
  "('b, 'e, 'o, 'w) system \<Rightarrow> 'b \<Rightarrow> bool \<Rightarrow> error + render_out" where
  "forward s batch decode =
     (let render_out = renderer s batch; out = render_out
      in if decode then
           if refinement (cfg s) then
             (case lookup out ''comp_rgb'' of Inl e \<Rightarrow> Inl e
              | Inr rgb \<Rightarrow> Inr (out(''decoded_rgb'' \<mapsto> rgb)))
           else
             (case guidance s of
                None \<Rightarrow> Inl (AttributeError ''decode_latents'')
              | Some g \<Rightarrow>
                 (case lookup out ''comp_rgb'' of Inl e \<Rightarrow> Inl e
                  | Inr rgb \<Rightarrow>
                     (case permute [0, 3, 1, 2] rgb of Inl e \<Rightarrow> Inl e
                      | Inr latents \<Rightarrow>
                         (case permute [0, 2, 3, 1] (decode_latents g latents) of Inl e \<Rightarrow> Inl e
                          | Inr img \<Rightarrow> Inr (out(''decoded_rgb'' \<mapsto> img))))))
         else Inr out)"

definition on_fit_start ::
  "('b, 'e, 'o) registry \<Rightarrow> ('b, 'e, 'o, 'w) system \<Rightarrow> error + ('b, 'e, 'o, 'w) system" where
  "on_fit_start reg s =
     (case find_prompt_processor reg (prompt_processor_type (cfg s)) of
        None \<Rightarrow> Inl (KeyError (prompt_processor_type (cfg s)))
      | Some mk \<Rightarrow>
          setup_guidance reg
            (s\<lparr>prompt_processor := Some (mk (cfg_prompt_processor (cfg s))),
               trace := trace s @ [Construct_prompt_processor (prompt_processor_type (cfg s))]\<rparr>))"

definition on_validation_start ::
  "('b, 'e, 'o) registry \<Rightarrow> ('b, 'e, 'o, 'w) system \<Rightarrow> error + ('b, 'e, 'o, 'w) system" where
  "on_validation_start reg s =
     (if \<not> refinement (cfg s) then setup_guidance reg s else Inr s)"

definition on_test_start ::
  "('b, 'e, 'o) registry \<Rightarrow> ('b, 'e, 'o, 'w) system \<Rightarrow> error + ('b, 'e, 'o, 'w) system" where
  "on_test_start reg s =
     (if \<not> refinement (cfg s) then setup_guidance reg s else Inr s)"

section \<open>The training step\<close>

text \<open>
  \<open>self.C(self.cfg.loss.<name>)\<close>: the weight of that name, evaluated at the current
  step by \<open>C\<close> (of \<open>BaseSystem\<close>, a parameter here). A name that \<open>cfg.loss\<close> does not
  have is an attribute error of the configuration.
\<close>

definition loss_weight :: "('w \<Rightarrow> real) \<Rightarrow> ('o, 'w) config \<Rightarrow> string \<Rightarrow> error + real" where
  "loss_weight C c name =
     (case map_of (cfg_loss c) name of
        None \<Rightarrow> Inl (AttributeError name)
      | Some w \<Rightarrow> Inr (C w))"

text \<open>
  What \<open>self.log\<close> has recorded so far, in order. A stage of the step takes the running
  loss and the log and returns them updated, or the exception together with the log at
  the moment it is raised.
\<close>

type_synonym log = "(string \<times> fl) list"

type_synonym acc = "fl \<times> log"

text \<open>Lines 93 to 100: prompt, guidance, and the first term of the loss.\<close>

definition sds_stage ::
  "('w \<Rightarrow> real) \<Rightarrow> ('b, 'e, 'o, 'w) system \<Rightarrow> 'b \<Rightarrow> render_out \<Rightarrow> error + fl" where
  "sds_stage C s batch out =
     (case prompt_processor s of
        None \<Rightarrow> Inl (AttributeError ''prompt_processor'')
      | Some pp \<Rightarrow>
         (let text_embeddings = pp batch in
          case lookup out ''comp_rgb'' of Inl e \<Rightarrow> Inl e
          | Inr rgb \<Rightarrow>
             (case guidance s of
                None \<Rightarrow> Inl (TypeError ''NoneType object is not callable'')
              | Some g \<Rightarrow>
                 (let guidance_out = guide g rgb text_embeddings (\<not> refinement (cfg s)) in
                  case lookup guidance_out ''sds'' of Inl e \<Rightarrow> Inl e
                  | Inr sds \<Rightarrow>
                     (case loss_weight C (cfg s) ''lambda_sds'' of Inl e \<Rightarrow> Inl e
                      | Inr w \<Rightarrow> Inr (fl_add (Fin 0) (fl_scale sds w)))))))"

text \<open>Lines 107 to 110, the expression bound to \<open>loss_orient\<close>.\<close>

definition loss_orient :: "render_out \<Rightarrow> error + fl" where
  "loss_orient out =
     (case lookup out ''weights'' of Inl e \<Rightarrow> Inl e
      | Inr weights \<Rightarrow>
         (case lookup out ''normal'' of Inl e \<Rightarrow> Inl e
          | Inr normal \<Rightarrow>
             (case lookup out ''t_dirs'' of Inl e \<Rightarrow> Inl e
              | Inr t_dirs \<Rightarrow>
                 (case dot normal t_dirs of Inl e \<Rightarrow> Inl e
                  | Inr d \<Rightarrow>
                     (case tmul (detach weights) (tsquare (clamp_min 0 d)) of Inl e \<Rightarrow> Inl e
                      | Inr weighted \<Rightarrow>
                         (case lookup out ''opacity'' of Inl e \<Rightarrow> Inl e
                          | Inr opacity \<Rightarrow>
                             Inr (fl_div (tsum weighted) (real (count_gt0 opacity)))))))))"

text \<open>Lines 102 to 112.\<close>

definition orient_stage ::
  "('w \<Rightarrow> real) \<Rightarrow> ('o, 'w) config \<Rightarrow> render_out \<Rightarrow> acc \<Rightarrow> (error \<times> log) + acc" where
  "orient_stage C c out a =
     (case loss_weight C c ''lambda_orient'' of Inl e \<Rightarrow> Inl (e, snd a)
      | Inr w \<Rightarrow>
         if 0 < w then
           if out ''normal'' = None then
             Inl (ValueError
               ''Normal is required for orientation loss, no normal is found in the output.'',
               snd a)
           else
             (case loss_orient out of Inl e \<Rightarrow> Inl (e, snd a)
              | Inr lo \<Rightarrow>
                 (case loss_weight C c ''lambda_orient'' of
                    Inl e \<Rightarrow> Inl (e, snd a @ [(''train/loss_orient'', lo)])
                  | Inr w' \<Rightarrow>
                      Inr (fl_add (fst a) (fl_scale lo w'),
                           snd a @ [(''train/loss_orient'', lo)])))
         else Inr a)"

text \<open>
  Line 114, the expression bound to \<open>loss_sparsity\<close>:
  \<open>(out["opacity"] ** 2 + 0.01).sqrt().mean()\<close>, each operation on the whole tensor
  and in \<open>float32\<close>. \<open>** 2\<close> multiplies an element with itself; the scalar \<open>0.01\<close>
  is added as a \<open>float32\<close>.
\<close>

definition loss_sparsity :: "tensor \<Rightarrow> fl" where
  "loss_sparsity opacity =
     f32_mean (map f32_sqrt
       (map (\<lambda>s. f32_add s (f32_round (1 / 100)))
         (map (\<lambda>x. f32_mul (Fin x) (Fin x)) (data opacity))))"

text \<open>Lines 114 to 116.\<close>

definition sparsity_stage ::
  "('w \<Rightarrow> real) \<Rightarrow> ('o, 'w) config \<Rightarrow> render_out \<Rightarrow> acc \<Rightarrow> (error \<times> log) + acc" where
  "sparsity_stage C c out a =
     (case lookup out ''opacity'' of Inl e \<Rightarrow> Inl (e, snd a)
      | Inr opacity \<Rightarrow>
         (let ls = loss_sparsity opacity; lg = snd a @ [(''train/loss_sparsity'', ls)] in
          case loss_weight C c ''lambda_sparsity'' of Inl e \<Rightarrow> Inl (e, lg)
          | Inr w \<Rightarrow> Inr (fl_add (fst a) (fl_scale ls w), lg)))"

text \<open>
  Line 118, \<open>out["opacity"].clamp(1.0e-3, 1.0 - 1.0e-3)\<close>: the two bounds are Python
  scalars and become \<open>float32\<close> values; clamping itself does not round.
\<close>

definition opacity_clamped :: "tensor \<Rightarrow> tensor" where
  "opacity_clamped opacity = clamp (f32_value (1 / 1000)) (f32_value (1 - 1 / 1000)) opacity"

text \<open>Line 119, the expression bound to \<open>loss_opaque\<close>.\<close>

definition loss_opaque :: "tensor \<Rightarrow> fl" where
  "loss_opaque opacity =
     binary_cross_entropy (opacity_clamped opacity) (opacity_clamped opacity)"

text \<open>Lines 118 to 121.\<close>

definition opaque_stage ::
  "('w \<Rightarrow> real) \<Rightarrow> ('o, 'w) config \<Rightarrow> render_out \<Rightarrow> acc \<Rightarrow> (error \<times> log) + acc" where
  "opaque_stage C c out a =
     (case lookup out ''opacity'' of Inl e \<Rightarrow> Inl (e, snd a)
      | Inr opacity \<Rightarrow>
         (let lo = loss_opaque opacity; lg = snd a @ [(''train/loss_opaque'', lo)] in
          case loss_weight C c ''lambda_opaque'' of Inl e \<Rightarrow> Inl (e, lg)
          | Inr w \<Rightarrow> Inr (fl_add (fst a) (fl_scale lo w), lg)))"

text \<open>\<open>t.shape[0]\<close>; a tensor of no dimension has no first one.\<close>

definition shape0 :: "tensor \<Rightarrow> error + nat" where
  "shape0 t = (case shape t of [] \<Rightarrow> Inl (IndexError ''tuple index out of range'')
               | n # _ \<Rightarrow> Inr n)"

text \<open>
  Lines 123 to 126. Python's \<open>and\<close> reads \<open>out["points"]\<close> only when the weight is
  positive; \<open>self.shape_loss\<close> exists only when \<open>configure\<close> saw a \<open>guide_shape\<close>.
\<close>

definition shape_stage ::
  "('w \<Rightarrow> real) \<Rightarrow> ('b, 'e, 'o, 'w) system \<Rightarrow> render_out \<Rightarrow> acc \<Rightarrow> (error \<times> log) + acc" where
  "shape_stage C s out a =
     (case loss_weight C (cfg s) ''lambda_shape'' of Inl e \<Rightarrow> Inl (e, snd a)
      | Inr w \<Rightarrow>
         if 0 < w then
           (case lookup out ''points'' of Inl e \<Rightarrow> Inl (e, snd a)
            | Inr points \<Rightarrow>
               (case shape0 points of Inl e \<Rightarrow> Inl (e, snd a)
                | Inr n \<Rightarrow>
                   if 0 < n then
                     (case shape_loss s of
                        None \<Rightarrow> Inl (AttributeError ''shape_loss'', snd a)
                      | Some evaluator \<Rightarrow>
                         (case lookup out ''points'' of Inl e \<Rightarrow> Inl (e, snd a)
                          | Inr pts \<Rightarrow>
                             (case lookup out ''density'' of Inl e \<Rightarrow> Inl (e, snd a)
                              | Inr density \<Rightarrow>
                                 (let ls = evaluator pts density;
                                      lg = snd a @ [(''train/loss_shape'', ls)] in
                                  case loss_weight C (cfg s) ''lambda_shape'' of
                                    Inl e \<Rightarrow> Inl (e, lg)
                                  | Inr w' \<Rightarrow> Inr (fl_add (fst a) (fl_scale ls w'), lg)))))
                   else Inr a))
         else Inr a)"

text \<open>Lines 128 and 129: every configured weight is logged at its current value.\<close>

definition log_params :: "('w \<Rightarrow> real) \<Rightarrow> ('o, 'w) config \<Rightarrow> log \<Rightarrow> log" where
  "log_params C c lg = lg @ map (\<lambda>(name, v). (''train_params/'' @ name, Fin (C v))) (cfg_loss c)"

text \<open>\<open>LatentNeRF.training_step\<close>: the loss and the log, or the exception and the log.\<close>

definition training_step ::
  "('w \<Rightarrow> real) \<Rightarrow> ('b, 'e, 'o, 'w) system \<Rightarrow> 'b \<Rightarrow> (error \<times> log) + acc" where
  "training_step C s batch =
     (case forward s batch False of Inl e \<Rightarrow> Inl (e, [])
      | Inr out \<Rightarrow>
         (case sds_stage C s batch out of Inl e \<Rightarrow> Inl (e, [])
          | Inr l0 \<Rightarrow>
             (case orient_stage C (cfg s) out (l0, []) of Inl x \<Rightarrow> Inl x
              | Inr a1 \<Rightarrow>
                 (case sparsity_stage C (cfg s) out a1 of Inl x \<Rightarrow> Inl x
                  | Inr a2 \<Rightarrow>
                     (case opaque_stage C (cfg s) out a2 of Inl x \<Rightarrow> Inl x
                      | Inr a3 \<Rightarrow>
                         (case shape_stage C s out a3 of Inl x \<Rightarrow> Inl x
                          | Inr a4 \<Rightarrow> Inr (fst a4, log_params C (cfg s) (snd a4))))))))"

section \<open>Runs of the hooks\<close>

text \<open>\<open>n\<close> calls of \<open>setup_guidance\<close> in a row; an exception ends the run.\<close>

fun setup_guidance_n ::
  "nat \<Rightarrow> ('b, 'e, 'o) registry \<Rightarrow> ('b, 'e, 'o, 'w) system \<Rightarrow> error + ('b, 'e, 'o, 'w) system" where
  "setup_guidance_n 0 reg s = Inr s"
| "setup_guidance_n (Suc n) reg s =
     (case setup_guidance reg s of Inl e \<Rightarrow> Inl e | Inr s' \<Rightarrow> setup_guidance_n n reg s')"

fun is_guidance_construction :: "event \<Rightarrow> bool" where
  "is_guidance_construction (Construct_guidance tag) = True"
| "is_guidance_construction (Construct_prompt_processor tag) = False"

text \<open>How often the guidance model has been constructed so far.\<close>

definition guidance_constructions :: "('b, 'e, 'o, 'w) system \<Rightarrow> nat" where
  "guidance_constructions s = length (filter is_guidance_construction (trace s))"

text \<open>
  The phase hooks the training framework calls, and a run of them in the framework's
  order; an exception ends the run.
\<close>

datatype hook = Fit_start | Validation_start | Test_start

fun run_hook ::
  "('b, 'e, 'o) registry \<Rightarrow> hook \<Rightarrow> ('b, 'e, 'o, 'w) system \<Rightarrow> error + ('b, 'e, 'o, 'w) system" where
  "run_hook reg Fit_start s = on_fit_start reg s"
| "run_hook reg Validation_start s = on_validation_start reg s"
| "run_hook reg Test_start s = on_test_start reg s"

fun run_hooks ::
  "('b, 'e, 'o) registry \<Rightarrow> hook list \<Rightarrow> ('b, 'e, 'o, 'w) system
     \<Rightarrow> error + ('b, 'e, 'o, 'w) system" where
  "run_hooks reg [] s = Inr s"
| "run_hooks reg (h # hs) s =
     (case run_hook reg h s of Inl e \<Rightarrow> Inl e | Inr s' \<Rightarrow> run_hooks reg hs s')"

section \<open>The words of the specification\<close>

text \<open>
  The top-level segment of a dotted parameter name, as the specification speaks of it:
  the part before the first dot.
\<close>

definition top_level_name :: "string \<Rightarrow> string" where
  "top_level_name k = takeWhile (\<lambda>c. c \<noteq> CHR ''.'') k"

text \<open>
  The orientation loss as the specification words it: the weighted squared positive
  parts of the per-sample dot products, summed over the \<open>N\<close> samples (of dimension
  \<open>D\<close>) and divided by the number of opacities above zero.
\<close>

definition orient_loss_spec ::
  "nat \<Rightarrow> nat \<Rightarrow> real list \<Rightarrow> real list \<Rightarrow> real list \<Rightarrow> real list \<Rightarrow> fl" where
  "orient_loss_spec N D ws ns ds os =
     fl_div (\<Sum>i<N. ws ! i * (max (\<Sum>j<D. ns ! (i * D + j) * ds ! (i * D + j)) 0) ^ 2)
            (real (length (filter (\<lambda>x. 0 < x) os)))"

text \<open>
  The binary cross-entropy of a probability against itself, which is its binary
  entropy.
\<close>

definition binary_entropy :: "real \<Rightarrow> real" where
  "binary_entropy p = - (p * ln p + (1 - p) * ln (1 - p))"


text \<open>
  The two clamp bounds as \<open>float32\<close> values: \<open>0.001\<close> becomes
  \<open>0.001000000047...\<close> and \<open>0.999\<close> becomes \<open>0.999000012...\<close>.
\<close>

definition clamp_lo :: real where
  "clamp_lo = 8589935 / 2 ^ 33"

definition clamp_hi :: real where
  "clamp_hi = 16760439 / 2 ^ 24"

text \<open>
  The sparsity term of one ray, \<open>sqrt (opacity\<^sup>2 + 0.01)\<close> in \<open>float32\<close>, and the
  \<open>float32\<close> value nearest to \<open>0.1\<close>, which is \<open>0.100000001490116...\<close>.
\<close>

definition sparsity_ray :: "real \<Rightarrow> fl" where
  "sparsity_ray x = f32_sqrt (f32_add (f32_mul (Fin x) (Fin x)) (f32_round (1 / 100)))"

definition f32_tenth :: real where
  "f32_tenth = 13421773 / 2 ^ 27"

text \<open>The tensor of the same shape with every element 0.\<close>

definition zeros_like :: "tensor \<Rightarrow> tensor" where
  "zeros_like t = t\<lparr>data := map (\<lambda>x. 0) (data t)\<rparr>"

section \<open>A small controller to run the model on\<close>

definition ex_guidance :: "unit guidance_model" where
  "ex_guidance =
     \<lparr>guide = (\<lambda>rgb emb latents. [''sds'' \<mapsto> Fin 1]),
      decode_latents = tmap (\<lambda>x. 2 * x)\<rparr>"

definition ex_registry :: "(unit, unit, unit) registry" where
  "ex_registry =
     \<lparr>find_guidance = [''stable-diffusion-guidance'' \<mapsto> (\<lambda>opts. ex_guidance)],
      find_prompt_processor = [''dreamfusion-prompt-processor'' \<mapsto> (\<lambda>opts batch. ())]\<rparr>"

definition ex_config :: "bool \<Rightarrow> (string \<times> real) list \<Rightarrow> (unit, real) config" where
  "ex_config r weights =
     \<lparr>guidance_type = ''stable-diffusion-guidance'', cfg_guidance = (),
      prompt_processor_type = ''dreamfusion-prompt-processor'', cfg_prompt_processor = (),
      guide_shape = None, refinement = r, cfg_loss = weights\<rparr>"

text \<open>A guidance model whose score tells whether it was asked for latents.\<close>

definition ex_flag_guidance :: "unit guidance_model" where
  "ex_flag_guidance =
     \<lparr>guide = (\<lambda>rgb emb latents. [''sds'' \<mapsto> (if latents then Fin 1 else Fin 0)]),
      decode_latents = tmap (\<lambda>x. 2 * x)\<rparr>"

text \<open>The controller after \<open>configure\<close>, with a renderer that always gives \<open>out\<close>.\<close>

definition ex_system ::
  "bool \<Rightarrow> (string \<times> real) list \<Rightarrow> render_out \<Rightarrow> (unit, unit, unit, real) system" where
  "ex_system r weights out = configure (ex_config r weights) (\<lambda>batch. out) (\<lambda>path pts dens. Fin 0)"

text \<open>The same controller once \<open>on_fit_start\<close> has run.\<close>

definition ex_fitted ::
  "bool \<Rightarrow> (string \<times> real) list \<Rightarrow> render_out \<Rightarrow> (unit, unit, unit, real) system" where
  "ex_fitted r weights out =
     (ex_system r weights out)
       \<lparr>guidance := Some ex_guidance, prompt_processor := Some (\<lambda>batch. ()),
        trace := [Construct_prompt_processor ''dreamfusion-prompt-processor'',
                  Construct_guidance ''stable-diffusion-guidance'']\<rparr>"

text \<open>
  A render output of one image of two pixels (two latent channels) and two samples.
  The first sample faces away from its ray, the second one towards it.
\<close>

definition ex_rgb :: tensor where
  "ex_rgb = \<lparr>shape = [1, 1, 2, 2], data = [1, 2, 3, 4]\<rparr>"

definition ex_out :: "tensor \<Rightarrow> render_out" where
  "ex_out opacity =
     [''comp_rgb'' \<mapsto> ex_rgb,
      ''opacity'' \<mapsto> opacity,
      ''weights'' \<mapsto> \<lparr>shape = [2, 1], data = [1 / 2, 1]\<rparr>,
      ''normal'' \<mapsto> \<lparr>shape = [2, 3], data = [1, 0, 0, 0, 1, 0]\<rparr>,
      ''t_dirs'' \<mapsto> \<lparr>shape = [2, 3], data = [1, 0, 0, 0, - 1, 0]\<rparr>,
      ''points'' \<mapsto> \<lparr>shape = [2, 3], data = [0, 0, 1, 0, 0, 2]\<rparr>,
      ''density'' \<mapsto> \<lparr>shape = [2, 1], data = [3, 4]\<rparr>]"

definition ex_opacity :: tensor where
  "ex_opacity = \<lparr>shape = [1, 1, 2, 1], data = [0, 1 / 2]\<rparr>"

definition ex_transparent :: tensor where
  "ex_transparent = \<lparr>shape = [1, 1, 2, 1], data = [0, 0]\<rparr>"

text \<open>Weights that switch the orientation term on, and weights that switch it off.\<close>

definition ex_weights :: "real \<Rightarrow> real \<Rightarrow> (string \<times> real) list" where
  "ex_weights orient shp =
     [(''lambda_sds'', 1), (''lambda_orient'', orient), (''lambda_sparsity'', 1),
      (''lambda_opaque'', 1), (''lambda_shape'', shp)]"

text \<open>A render output of an image through empty space: no sample at all.\<close>

definition ex_empty_out :: render_out where
  "ex_empty_out =
     [''comp_rgb'' \<mapsto> ex_rgb,
      ''opacity'' \<mapsto> ex_transparent,
      ''weights'' \<mapsto> \<lparr>shape = [0, 1], data = []\<rparr>,
      ''normal'' \<mapsto> \<lparr>shape = [0, 3], data = []\<rparr>,
      ''t_dirs'' \<mapsto> \<lparr>shape = [0, 3], data = []\<rparr>,
      ''points'' \<mapsto> \<lparr>shape = [0, 3], data = []\<rparr>,
      ''density'' \<mapsto> \<lparr>shape = [0, 1], data = []\<rparr>]"


section \<open>The tensor operations keep tensors well-formed\<close>

lemma tmap_wf: "wf_tensor t \<Longrightarrow> wf_tensor (tmap f t)"
  by (simp add: wf_tensor_def tmap_def)

lemma tbinop_wf: "tbinop f a b = Inr t \<Longrightarrow> wf_tensor t"
  by (auto simp: tbinop_def wf_tensor_def split: option.splits)

lemma permute_wf: "permute dims t = Inr t' \<Longrightarrow> wf_tensor t'"
  by (auto simp: permute_def wf_tensor_def Let_def split: if_splits)

lemma sum_last_keepdim_wf: "wf_tensor t \<Longrightarrow> wf_tensor (sum_last_keepdim t)"
  by (simp add: sum_last_keepdim_def wf_tensor_def Let_def)

section \<open>Single precision: rounding keeps the order\<close>

text \<open>The binary exponent found by \<open>f32_exponent\<close> is the right one, and the only one.\<close>

lemma pow2_pos: "0 < (2::real) powi j"
  by simp

lemma less_pow2_minus: "a * 2 powi j < 1 \<Longrightarrow> a < (2::real) powi (- j)"
  using pow2_pos [of j] by (simp add: power_int_minus_divide pos_less_divide_eq)

lemma pow2_minus_le: "1 \<le> a * 2 powi j \<Longrightarrow> (2::real) powi (- j) \<le> a"
  using pow2_pos [of j] by (simp add: power_int_minus_divide pos_divide_le_eq)

lemma f32_exponent_bounds:
  assumes "0 < a"
  shows "2 powi (f32_exponent a) \<le> a \<and> a < 2 powi (f32_exponent a + 1)"
proof (cases "1 \<le> a")
  case True
  let ?m = "\<lfloor>a\<rfloor>"
  have m: "0 < ?m" using True by simp
  have b1: "1 \<le> bitlen ?m" using m by (simp add: bitlen_alt_def)
  from bitlen_bounds [OF m] have lo: "2 ^ nat (bitlen ?m - 1) \<le> ?m"
    and hi: "?m < 2 ^ nat (bitlen ?m)" by simp_all
  have e: "f32_exponent a = bitlen ?m - 1" using True by (simp add: f32_exponent_def)
  have "(2::real) powi (bitlen ?m - 1) = 2 ^ nat (bitlen ?m - 1)"
    using b1 by (simp add: power_int_nonneg_exp)
  also have "\<dots> = of_int (2 ^ nat (bitlen ?m - 1))" by simp
  also have "\<dots> \<le> of_int ?m" using lo by (simp only: of_int_le_iff)
  also have "\<dots> \<le> a" by simp
  finally have 1: "2 powi (f32_exponent a) \<le> a" by (simp only: e)
  from hi have "?m + 1 \<le> 2 ^ nat (bitlen ?m)" by simp
  then have "of_int (?m + 1) \<le> (of_int (2 ^ nat (bitlen ?m)) :: real)"
    by (simp only: of_int_le_iff)
  then have "a < 2 ^ nat (bitlen ?m)"
    by (simp add: less_le_trans [OF _ ] floor_less_iff) linarith
  also have "(2::real) ^ nat (bitlen ?m) = 2 powi (bitlen ?m)"
    using b1 by (simp add: power_int_nonneg_exp)
  finally have 2: "a < 2 powi (f32_exponent a + 1)" by (simp add: e)
  from 1 2 show ?thesis ..
next
  case False
  let ?k = "\<lceil>1 / a\<rceil> - 1"
  have a1: "a < 1" using False by simp
  have inv: "1 < 1 / a" using assms a1 by simp
  have k: "0 < ?k" using inv by linarith
  have kl: "of_int ?k < 1 / a" by linarith
  have ku: "1 / a \<le> of_int ?k + 1" by linarith
  have b1: "1 \<le> bitlen ?k" using k by (simp add: bitlen_alt_def)
  from bitlen_bounds [OF k] have lo: "2 ^ nat (bitlen ?k - 1) \<le> ?k"
    and hi: "?k < 2 ^ nat (bitlen ?k)" by simp_all
  have e: "f32_exponent a = - bitlen ?k" using False by (simp add: f32_exponent_def)
  from hi have "?k + 1 \<le> 2 ^ nat (bitlen ?k)" by simp
  then have "of_int (?k + 1) \<le> (of_int (2 ^ nat (bitlen ?k)) :: real)"
    by (simp only: of_int_le_iff)
  then have "of_int ?k + 1 \<le> (2 ^ nat (bitlen ?k) :: real)" by simp
  with ku have "1 / a \<le> 2 ^ nat (bitlen ?k)" by (rule order_trans)
  then have "1 / a \<le> 2 powi (bitlen ?k)" using b1 by (simp add: power_int_nonneg_exp)
  then have "1 \<le> a * 2 powi (bitlen ?k)" using assms by (simp add: field_simps)
  then have 1: "2 powi (- bitlen ?k) \<le> a"
    by (rule pow2_minus_le)
  have "(of_int (2 ^ nat (bitlen ?k - 1)) :: real) \<le> of_int ?k"
    using lo by (simp only: of_int_le_iff)
  then have "(2 ^ nat (bitlen ?k - 1) :: real) \<le> of_int ?k" by simp
  from this kl have "2 ^ nat (bitlen ?k - 1) < 1 / a" by (rule le_less_trans)
  then have "2 powi (bitlen ?k - 1) < 1 / a" using b1 by (simp add: power_int_nonneg_exp)
  then have "a * 2 powi (bitlen ?k - 1) < 1" using assms by (simp add: field_simps)
  then have "a < 2 powi (- (bitlen ?k - 1))"
    by (rule less_pow2_minus)
  then have 2: "a < 2 powi (- bitlen ?k + 1)" by (simp add: algebra_simps)
  from 1 2 show ?thesis by (simp only: e) 
qed



lemma fl_le_trans: "fl_le a b \<Longrightarrow> fl_le b c \<Longrightarrow> fl_le a c"
  by (cases a; cases b; cases c) simp_all

lemma fl_le_antisym: "fl_le a b \<Longrightarrow> fl_le b a \<Longrightarrow> a = b"
  by (cases a; cases b) simp_all

lemma f32_exponent_unique:
  assumes "0 < a" "2 powi k \<le> a" "a < 2 powi (k + 1)"
  shows "f32_exponent a = k"
proof (rule antisym)
  let ?e = "f32_exponent a"
  note B = f32_exponent_bounds [OF assms(1)]
  show "?e \<le> k"
  proof (rule ccontr)
    assume "\<not> ?e \<le> k"
    then have "k + 1 \<le> ?e" by simp
    then have "(2::real) powi (k + 1) \<le> 2 powi ?e" by (simp add: power_int_increasing)
    with B assms(3) show False by linarith
  qed
  show "k \<le> ?e"
  proof (rule ccontr)
    assume "\<not> k \<le> ?e"
    then have "?e + 1 \<le> k" by simp
    then have "(2::real) powi (?e + 1) \<le> 2 powi k" by (simp add: power_int_increasing)
    with B assms(2) show False by linarith
  qed
qed

lemma f32_exponent_mono:
  assumes "0 < a" "a \<le> b"
  shows "f32_exponent a \<le> f32_exponent b"
proof (rule ccontr)
  assume "\<not> f32_exponent a \<le> f32_exponent b"
  then have "f32_exponent b + 1 \<le> f32_exponent a" by simp
  then have "(2::real) powi (f32_exponent b + 1) \<le> 2 powi (f32_exponent a)"
    by (simp add: power_int_increasing)
  moreover have "0 < b" using assms by simp
  ultimately show False
    using f32_exponent_bounds [OF assms(1)] f32_exponent_bounds [of b] assms(2) by linarith
qed

lemma rne_of_int: "rne (of_int k) = k"
  by (simp add: rne_def)

lemma rne_bounds: "\<lfloor>y\<rfloor> \<le> rne y \<and> rne y \<le> \<lfloor>y\<rfloor> + 1"
  by (simp add: rne_def Let_def)

lemma rne_mono:
  assumes "x \<le> y"
  shows "rne x \<le> rne y"
proof (cases "\<lfloor>x\<rfloor> = \<lfloor>y\<rfloor>")
  case True
  then show ?thesis using assms by (auto simp: rne_def Let_def)
next
  case False
  moreover have "\<lfloor>x\<rfloor> \<le> \<lfloor>y\<rfloor>" using assms by (rule floor_mono)
  ultimately have "\<lfloor>x\<rfloor> + 1 \<le> \<lfloor>y\<rfloor>" by simp
  with rne_bounds [of x] rne_bounds [of y] show ?thesis by linarith
qed

lemma rne_le_int: "y \<le> of_int k \<Longrightarrow> rne y \<le> k"
  using rne_mono [of y "of_int k"] by (simp add: rne_of_int)

lemma rne_ge_int: "of_int k \<le> y \<Longrightarrow> k \<le> rne y"
  using rne_mono [of "of_int k" y] by (simp add: rne_of_int)

lemma f32_pack_mono:
  "of_int m * q \<le> of_int m' * q' \<Longrightarrow> fl_le (f32_pack m q) (f32_pack m' q')"
  by (auto simp: f32_pack_def Let_def)

lemma pow2_split: "(2::real) powi j * 2 ^ k = 2 powi (j + int k)"
  by (simp add: power_int_add)

lemma f32_quantum_pos: "0 < f32_quantum x"
  by (simp add: f32_quantum_def)

lemma f32_round_mono_pos:
  assumes "0 < x" "x \<le> y"
  shows "fl_le (f32_round x) (f32_round y)"
proof -
  have y: "0 < y" using assms by simp
  let ?ex = "max (f32_exponent x) (- 126)" and ?ey = "max (f32_exponent y) (- 126)"
  let ?qx = "(2::real) powi (?ex - 23)" and ?qy = "(2::real) powi (?ey - 23)"
  have qx: "f32_quantum x = ?qx" and qy: "f32_quantum y = ?qy"
    using assms y by (simp_all add: f32_quantum_def)
  have rx: "f32_round x = f32_pack (rne (x / ?qx)) ?qx"
    and ry: "f32_round y = f32_pack (rne (y / ?qy)) ?qy"
    using assms y by (simp_all add: f32_round_def qx qy Let_def)
  have le: "?ex \<le> ?ey"
    using f32_exponent_mono [OF assms] by simp
  have "of_int (rne (x / ?qx)) * ?qx \<le> of_int (rne (y / ?qy)) * ?qy"
  proof (cases "?ex = ?ey")
    case True
    have "x / ?qx \<le> y / ?qx" using assms by (simp add: divide_right_mono)
    then have "rne (x / ?qx) \<le> rne (y / ?qx)" by (rule rne_mono)
    then have "(of_int (rne (x / ?qx)) :: real) \<le> of_int (rne (y / ?qx))"
      by (simp only: of_int_le_iff)
    then have "of_int (rne (x / ?qx)) * ?qx \<le> of_int (rne (y / ?qx)) * ?qx"
      by (simp add: mult_right_mono)
    then show ?thesis by (simp only: True)
  next
    case False
    with le have lt: "?ex + 1 \<le> ?ey" by simp
    then have ey: "?ey = f32_exponent y" by (simp add: max_def split: if_splits)
    have "x < 2 powi (f32_exponent x + 1)"
      using f32_exponent_bounds [OF assms(1)] by simp
    also have "\<dots> \<le> 2 powi (?ex + 1)" by (simp add: power_int_increasing)
    finally have xu: "x < 2 powi (?ex + 1)" .
    have "?ex - 23 + int 24 = ?ex + 1" by simp
    then have top: "(2::real) powi (?ex + 1) = ?qx * 2 ^ 24"
      by (simp only: pow2_split)
    have "x / ?qx \<le> 2 ^ 24"
      using xu by (simp add: top pos_divide_le_eq mult.commute)
    then have "x / ?qx \<le> of_int (2 ^ 24)" by simp
    then have "rne (x / ?qx) \<le> 2 ^ 24" by (rule rne_le_int)
    then have "(of_int (rne (x / ?qx)) :: real) \<le> of_int (2 ^ 24)"
      by (simp only: of_int_le_iff)
    then have "of_int (rne (x / ?qx)) * ?qx \<le> of_int (2 ^ 24) * ?qx"
      by (simp add: mult_right_mono)
    also have "\<dots> = 2 powi (?ex + 1)" by (simp add: top)
    also have "\<dots> \<le> 2 powi ?ey" using lt by (simp add: power_int_increasing)
    finally have 1: "of_int (rne (x / ?qx)) * ?qx \<le> 2 powi ?ey" .
    have yl: "2 powi ?ey \<le> y"
      using f32_exponent_bounds [OF y] by (simp only: ey)
    have "?ey - 23 + int 23 = ?ey" by simp
    then have bot: "(2::real) powi ?ey = ?qy * 2 ^ 23"
      by (simp only: pow2_split)
    have "2 ^ 23 \<le> y / ?qy"
      using yl by (simp add: bot pos_le_divide_eq mult.commute)
    then have "of_int (2 ^ 23) \<le> y / ?qy" by simp
    then have "2 ^ 23 \<le> rne (y / ?qy)" by (rule rne_ge_int)
    then have "(of_int (2 ^ 23) :: real) \<le> of_int (rne (y / ?qy))"
      by (simp only: of_int_le_iff)
    then have "of_int (2 ^ 23) * ?qy \<le> of_int (rne (y / ?qy)) * ?qy"
      by (simp add: mult_right_mono)
    then have 2: "2 powi ?ey \<le> of_int (rne (y / ?qy)) * ?qy"
      by (simp add: bot mult.commute)
    from 1 2 show ?thesis by (rule order_trans)
  qed
  then show ?thesis unfolding rx ry by (rule f32_pack_mono)
qed


lemma f32_round_nonneg: "0 \<le> x \<Longrightarrow> fl_le (Fin 0) (f32_round x)"
proof -
  assume x: "0 \<le> x"
  have "0 \<le> x / f32_quantum x" using x f32_quantum_pos [of x] by simp
  then have "of_int 0 \<le> x / f32_quantum x" by simp
  then have "0 \<le> rne (x / f32_quantum x)" by (rule rne_ge_int)
  then have "0 \<le> (of_int (rne (x / f32_quantum x)) :: real) * f32_quantum x"
    using f32_quantum_pos [of x] by simp
  then show ?thesis
    by (simp add: f32_round_def f32_pack_def Let_def)
qed

lemma f32_round_mono:
  assumes "0 \<le> x" "x \<le> y"
  shows "fl_le (f32_round x) (f32_round y)"
proof (cases "x = 0")
  case True
  have "f32_round 0 = Fin 0" by (simp add: f32_round_def)
  with True f32_round_nonneg [of y] assms show ?thesis by simp
next
  case False
  with assms have "0 < x" by simp
  then show ?thesis using assms(2) by (rule f32_round_mono_pos)
qed


text \<open>
  \<open>f32_sqrt\<close> is the correctly rounded square root: it is the real square root
  followed by \<open>f32_round\<close>.
\<close>

lemma isqrt_bounds: "(isqrt n) ^ 2 \<le> n \<and> n < (isqrt n + 1) ^ 2"
proof (induction n rule: isqrt.induct)
  case (1 n)
  show ?case
  proof (cases "n = 0")
    case True
    then show ?thesis by (simp add: isqrt.simps)
  next
    case False
    let ?s = "isqrt (n div 4)"
    from 1 [OF False] have ih: "?s ^ 2 \<le> n div 4" "n div 4 < (?s + 1) ^ 2" by simp_all
    have lo: "(2 * ?s) ^ 2 \<le> n"
    proof -
      have "(2 * ?s) ^ 2 = 4 * ?s ^ 2" by (simp add: power2_eq_square)
      also have "\<dots> \<le> 4 * (n div 4)" using ih(1) by simp
      also have "\<dots> \<le> n" by simp
      finally show ?thesis .
    qed
    have hi: "n < (2 * ?s + 2) ^ 2"
    proof -
      have "n < 4 * (n div 4) + 4" by simp
      also have "\<dots> \<le> 4 * (?s + 1) ^ 2" using ih(2) by simp
      also have "\<dots> = (2 * ?s + 2) ^ 2" by (simp add: power2_eq_square)
      finally show ?thesis .
    qed
    have d: "isqrt n = (if (2 * ?s + 1) ^ 2 \<le> n then 2 * ?s + 1 else 2 * ?s)"
      using False by (subst isqrt.simps) (simp add: Let_def)
    show ?thesis
    proof (cases "(2 * ?s + 1) ^ 2 \<le> n")
      case True
      with d have "isqrt n = 2 * ?s + 1" by simp
      with True hi show ?thesis by (simp add: add.commute numeral_2_eq_2)
    next
      case F: False
      with d have "isqrt n = 2 * ?s" by simp
      with F lo show ?thesis by simp
    qed
  qed
qed

lemma floor_sqrt_isqrt:
  assumes "0 \<le> y"
  shows "\<lfloor>sqrt y\<rfloor> = int (isqrt (nat \<lfloor>y\<rfloor>))"
proof (rule floor_unique)
  let ?N = "nat \<lfloor>y\<rfloor>" and ?k = "isqrt (nat \<lfloor>y\<rfloor>)"
  note B = isqrt_bounds [of ?N]
  have N: "real ?N \<le> y" "y < real ?N + 1" using assms by linarith+
  from B have "real (?k ^ 2) \<le> real ?N" by (simp only: of_nat_le_iff)
  with N have "(real ?k) ^ 2 \<le> y" by simp
  then have "real ?k \<le> sqrt y" by (rule real_le_rsqrt)
  then show "of_int (int ?k) \<le> sqrt y" by simp
  from B have "?N + 1 \<le> (?k + 1) ^ 2" by simp
  then have "real (?N + 1) \<le> real ((?k + 1) ^ 2)" by (simp only: of_nat_le_iff)
  then have "real ?N + 1 \<le> (real ?k + 1) ^ 2" by (simp add: add.commute)
  with N(2) have "y < (real ?k + 1) ^ 2" by (rule less_le_trans)
  then have "sqrt y < real ?k + 1" by (intro real_less_lsqrt) simp_all
  then show "sqrt y < of_int (int ?k) + 1" by simp
qed

lemma sqrt_less_iff_square:
  assumes "0 \<le> h"
  shows "sqrt y < h \<longleftrightarrow> y < h ^ 2" and "h < sqrt y \<longleftrightarrow> h ^ 2 < y"
proof -
  have h: "sqrt (h ^ 2) = h" using assms by simp
  have "sqrt y < sqrt (h ^ 2) \<longleftrightarrow> y < h ^ 2" by (rule real_sqrt_less_iff)
  then show "sqrt y < h \<longleftrightarrow> y < h ^ 2" by (simp only: h)
  have "sqrt (h ^ 2) < sqrt y \<longleftrightarrow> h ^ 2 < y" by (rule real_sqrt_less_iff)
  then show "h < sqrt y \<longleftrightarrow> h ^ 2 < y" by (simp only: h)
qed

lemma rne_sqrt_correct:
  assumes "0 \<le> y"
  shows "rne_sqrt y = rne (sqrt y)"
proof -
  let ?n = "int (isqrt (nat \<lfloor>y\<rfloor>))"
  let ?h = "of_int ?n + 1 / 2 :: real"
  have n: "\<lfloor>sqrt y\<rfloor> = ?n" using assms by (rule floor_sqrt_isqrt)
  have h: "0 \<le> ?h" by simp
  have "sqrt y - of_int ?n < 1 / 2 \<longleftrightarrow> sqrt y < ?h" by linarith
  also have "\<dots> \<longleftrightarrow> y < ?h ^ 2" using h by (rule sqrt_less_iff_square(1))
  finally have 1: "sqrt y - of_int ?n < 1 / 2 \<longleftrightarrow> y < ?h ^ 2" .
  have "1 / 2 < sqrt y - of_int ?n \<longleftrightarrow> ?h < sqrt y" by linarith
  also have "\<dots> \<longleftrightarrow> ?h ^ 2 < y" using h by (rule sqrt_less_iff_square(2))
  finally have 2: "1 / 2 < sqrt y - of_int ?n \<longleftrightarrow> ?h ^ 2 < y" .
  show ?thesis
    unfolding rne_sqrt_def rne_def n Let_def 1 2 ..
qed

lemma f32_exponent_sqrt:
  assumes "0 < a"
  shows "f32_exponent (sqrt a) = f32_exponent a div 2"
proof (rule f32_exponent_unique)
  let ?E = "f32_exponent a" and ?e = "f32_exponent a div 2"
  note B = f32_exponent_bounds [OF assms]
  show "0 < sqrt a" using assms by simp
  have sq: "((2::real) powi j) ^ 2 = 2 powi (2 * j)" for j
    by (simp add: power_int_power' mult.commute)
  have "2 * ?e \<le> ?E" by simp
  then have "(2::real) powi (2 * ?e) \<le> 2 powi ?E" by (simp add: power_int_increasing)
  also have "\<dots> \<le> a" using B by (rule conjunct1)
  finally have "((2::real) powi ?e) ^ 2 \<le> a" by (simp only: sq)
  then show "2 powi ?e \<le> sqrt a" by (rule real_le_rsqrt)
  have "?E + 1 \<le> 2 * (?e + 1)" by presburger
  then have "(2::real) powi (?E + 1) \<le> 2 powi (2 * (?e + 1))"
    by (simp add: power_int_increasing)
  with B [THEN conjunct2] have "a < 2 powi (2 * (?e + 1))" by (rule less_le_trans)
  then have "a < ((2::real) powi (?e + 1)) ^ 2" by (simp only: sq)
  then show "sqrt a < 2 powi (?e + 1)" by (intro real_less_lsqrt) simp_all
qed

lemma f32_sqrt_correct:
  assumes "0 \<le> a"
  shows "f32_sqrt (Fin a) = f32_round (sqrt a)"
proof (cases "a = 0")
  case True
  then show ?thesis by (simp add: f32_round_def)
next
  case False
  with assms have a: "0 < a" by simp
  let ?q = "(2::real) powi (max (f32_exponent a div 2) (- 126) - 23)"
  have q: "f32_quantum (sqrt a) = ?q"
    using a by (simp add: f32_quantum_def f32_exponent_sqrt)
  have qpos: "0 < ?q" by simp
  have "sqrt (a / (?q * ?q)) = sqrt a / ?q"
    using qpos by (simp add: real_sqrt_divide)
  moreover have "0 \<le> a / (?q * ?q)" using a by simp
  ultimately have "rne_sqrt (a / (?q * ?q)) = rne (sqrt a / ?q)"
    by (simp add: rne_sqrt_correct)
  then show ?thesis
    using a by (simp add: f32_round_def q Let_def)
qed



text \<open>Evaluation of the rounding on given numbers, and the constants of line 114.\<close>

lemmas f32_eval = f32_round_def f32_quantum_def f32_exponent_def f32_pack_def rne_def
  rne_sqrt_def compute_bitlen isqrt.simps Let_def power2_eq_square

lemma f32_hundredth: "f32_round (1 / 100) = Fin (10737418 / 2 ^ 30)"
  by (simp add: f32_eval)

lemma f32_hundredth_fixed: "f32_round (10737418 / 2 ^ 30) = Fin (10737418 / 2 ^ 30)"
  by (simp add: f32_eval)

lemma f32_sqrt_hundredth: "f32_sqrt (Fin (10737418 / 2 ^ 30)) = Fin f32_tenth"
  by (simp add: f32_tenth_def f32_eval)

lemma sparsity_ray_0: "sparsity_ray 0 = Fin f32_tenth"
  by (simp add: sparsity_ray_def f32_tenth_def f32_eval)

lemma f32_round_le_PInf: "fl_le (f32_round x) PInf"
  by (simp add: f32_round_def f32_pack_def Let_def)

lemma fl_nonneg_cases:
  assumes "fl_le (Fin 0) v"
  obtains (fin) r where "v = Fin r" "0 \<le> r" | (inf) "v = PInf"
  using assms by (cases v) simp_all

lemma fl_between_cases:
  assumes "fl_le (Fin a) v" "fl_le v (Fin b)"
  obtains r where "v = Fin r" "a \<le> r" "r \<le> b"
  using assms by (cases v) simp_all

lemma f32_sqrt_mono:
  assumes "0 \<le> a" "a \<le> b"
  shows "fl_le (f32_sqrt (Fin a)) (f32_sqrt (Fin b))"
proof -
  have b: "0 \<le> b" using assms by simp
  have "fl_le (f32_round (sqrt a)) (f32_round (sqrt b))"
    using assms by (intro f32_round_mono) simp_all
  then show ?thesis by (simp only: f32_sqrt_correct [OF assms(1)] f32_sqrt_correct [OF b])
qed

lemma sparsity_ray_ge: "fl_le (Fin f32_tenth) (sparsity_ray x)"
proof -
  let ?c = "10737418 / 2 ^ 30 :: real"
  have ray: "sparsity_ray x = f32_sqrt (f32_add (f32_round (x * x)) (Fin ?c))"
    by (simp only: sparsity_ray_def f32_hundredth f32_mul.simps)
  have "fl_le (Fin 0) (f32_round (x * x))" by (rule f32_round_nonneg) simp
  then show ?thesis
  proof (cases rule: fl_nonneg_cases)
    case inf
    then show ?thesis by (simp add: ray)
  next
    case (fin r)
    have "fl_le (f32_round ?c) (f32_round (r + ?c))"
      using fin(2) by (intro f32_round_mono) simp_all
    then have t: "fl_le (Fin ?c) (f32_round (r + ?c))" by (simp only: f32_hundredth_fixed)
    have ray': "sparsity_ray x = f32_sqrt (f32_round (r + ?c))"
      by (simp only: ray fin(1) f32_add.simps)
    show ?thesis
    proof (cases "f32_round (r + ?c)")
      case (Fin u)
      with t have u: "?c \<le> u" by simp
      have "fl_le (f32_sqrt (Fin ?c)) (f32_sqrt (Fin u))"
        using u by (intro f32_sqrt_mono) simp_all
      then show ?thesis by (simp only: ray' Fin f32_sqrt_hundredth)
    next
      case PInf
      then show ?thesis by (simp add: ray')
    next
      case NInf
      with t show ?thesis by simp
    next
      case NaN
      with t show ?thesis by simp
    qed
  qed
qed

lemma f32_absorb_square: "f32_round (1 / 2 ^ 30) = Fin (1 / 2 ^ 30)"
  by (simp add: f32_eval)

lemma f32_absorb_sum: "f32_round (1 / 2 ^ 30 + 10737418 / 2 ^ 30) = Fin (10737419 / 2 ^ 30)"
  by (simp add: f32_eval)

lemma f32_absorb_sqrt: "f32_sqrt (Fin (10737419 / 2 ^ 30)) = Fin f32_tenth"
  by (simp add: f32_tenth_def f32_eval)

lemma sparsity_ray_absorbed:
  assumes "\<bar>x\<bar> \<le> 1 / 2 ^ 15"
  shows "sparsity_ray x = Fin f32_tenth"
proof -
  let ?c = "10737418 / 2 ^ 30 :: real"
  have ray: "sparsity_ray x = f32_sqrt (f32_add (f32_round (x * x)) (Fin ?c))"
    by (simp only: sparsity_ray_def f32_hundredth f32_mul.simps)
  have "\<bar>x\<bar> * \<bar>x\<bar> \<le> (1 / 2 ^ 15) * (1 / 2 ^ 15)"
    using assms by (intro mult_mono) simp_all
  then have xx: "x * x \<le> 1 / 2 ^ 30" by simp
  have "fl_le (Fin 0) (f32_round (x * x))" by (rule f32_round_nonneg) simp
  moreover have "fl_le (f32_round (x * x)) (f32_round (1 / 2 ^ 30))"
    using xx by (intro f32_round_mono) simp_all
  then have "fl_le (f32_round (x * x)) (Fin (1 / 2 ^ 30))" by (simp only: f32_absorb_square)
  ultimately obtain r where r: "f32_round (x * x) = Fin r" "0 \<le> r" "r \<le> 1 / 2 ^ 30"
    by (rule fl_between_cases)
  have ray': "sparsity_ray x = f32_sqrt (f32_round (r + ?c))"
    by (simp only: ray r(1) f32_add.simps)
  have "fl_le (f32_round ?c) (f32_round (r + ?c))"
    using r(2) by (intro f32_round_mono) simp_all
  then have "fl_le (Fin ?c) (f32_round (r + ?c))" by (simp only: f32_hundredth_fixed)
  moreover have "fl_le (f32_round (r + ?c)) (f32_round (1 / 2 ^ 30 + ?c))"
    using r(2,3) by (intro f32_round_mono) simp_all
  then have "fl_le (f32_round (r + ?c)) (Fin (10737419 / 2 ^ 30))"
    by (simp only: f32_absorb_sum)
  ultimately obtain u where u: "f32_round (r + ?c) = Fin u" "?c \<le> u" "u \<le> 10737419 / 2 ^ 30"
    by (rule fl_between_cases)
  have "fl_le (f32_sqrt (Fin ?c)) (f32_sqrt (Fin u))"
    using u(2) by (intro f32_sqrt_mono) simp_all
  then have 1: "fl_le (Fin f32_tenth) (f32_sqrt (Fin u))"
    by (simp only: f32_sqrt_hundredth)
  have "0 \<le> u" using u(2) by simp
  then have "fl_le (f32_sqrt (Fin u)) (f32_sqrt (Fin (10737419 / 2 ^ 30)))"
    using u(3) by (rule f32_sqrt_mono)
  then have 2: "fl_le (f32_sqrt (Fin u)) (Fin f32_tenth)"
    by (simp only: f32_absorb_sqrt)
  from 2 1 have "f32_sqrt (Fin u) = Fin f32_tenth" by (rule fl_le_antisym)
  then show ?thesis by (simp only: ray' u(1))
qed

lemma f32_add_mono:
  assumes "fl_le (Fin 0) a" "fl_le a a'" "fl_le (Fin 0) b" "fl_le b b'"
  shows "fl_le (f32_add a b) (f32_add a' b')"
  using assms
  by (cases a; cases a'; cases b; cases b')
    (simp_all add: f32_round_mono f32_round_le_PInf)

lemma f32_add_nonneg:
  assumes "fl_le (Fin 0) a" "fl_le (Fin 0) b"
  shows "fl_le (Fin 0) (f32_add a b)"
  using assms by (cases a; cases b) (simp_all add: f32_round_nonneg)

lemma f32_sum_mono:
  assumes "list_all2 fl_le xs ys" "\<forall>x\<in>set xs. fl_le (Fin 0) x" "fl_le (Fin 0) a" "fl_le a b"
  shows "fl_le (foldl f32_add a xs) (foldl f32_add b ys)
       \<and> fl_le (Fin 0) (foldl f32_add a xs)"
  using assms
proof (induction xs ys arbitrary: a b rule: list_all2_induct)
  case Nil
  then show ?case by simp
next
  case (Cons x xs y ys)
  have x: "fl_le (Fin 0) x" using Cons.prems by simp
  have 1: "fl_le (f32_add a x) (f32_add b y)"
    using Cons.prems(2) Cons.prems(3) x Cons.hyps(1) by (intro f32_add_mono)
  have 2: "fl_le (Fin 0) (f32_add a x)"
    using Cons.prems(2) x by (rule f32_add_nonneg)
  have 3: "\<forall>x\<in>set xs. fl_le (Fin 0) x" using Cons.prems by simp
  from Cons.IH [OF 3 2 1] show ?case by simp
qed

lemma f32_div_mono:
  assumes "fl_le (Fin 0) s" "fl_le s s'" "0 < d"
  shows "fl_le (f32_div s (Fin d)) (f32_div s' (Fin d))"
  using assms
  by (cases s; cases s')
    (simp_all add: f32_round_mono f32_round_le_PInf divide_right_mono)

lemma f32_one: "f32_round 1 = Fin 1"
  by (simp add: f32_eval)

lemma f32_largest_count: "f32_round (2 ^ 127) = Fin (2 ^ 127)"
  by (simp add: f32_eval)

lemma f32_count:
  assumes "1 \<le> n" "n \<le> 2 ^ 127"
  obtains d where "f32_round (real n) = Fin d" "0 < d"
proof -
  have "fl_le (f32_round 1) (f32_round (real n))"
    using assms by (intro f32_round_mono) simp_all
  then have 1: "fl_le (Fin 1) (f32_round (real n))" by (simp only: f32_one)
  have "real n \<le> real (2 ^ 127)" using assms(2) by (simp only: of_nat_le_iff)
  then have "real n \<le> 2 ^ 127" by simp
  then have "fl_le (f32_round (real n)) (f32_round (2 ^ 127))"
    by (intro f32_round_mono) simp_all
  then have 2: "fl_le (f32_round (real n)) (Fin (2 ^ 127))" by (simp only: f32_largest_count)
  from 1 2 obtain d where "f32_round (real n) = Fin d" "1 \<le> d" "d \<le> 2 ^ 127"
    by (rule fl_between_cases)
  then show ?thesis using that by simp
qed

lemma f32_mean_mono:
  assumes "list_all2 fl_le xs ys" "\<forall>x\<in>set xs. fl_le (Fin 0) x"
    and "xs \<noteq> []" "length xs \<le> 2 ^ 127"
  shows "fl_le (f32_mean xs) (f32_mean ys)"
proof -
  have len: "length ys = length xs" using assms(1) by (simp add: list_all2_lengthD)
  have "1 \<le> length xs" using assms(3) by (cases xs) simp_all
  then obtain d where d: "f32_round (real (length xs)) = Fin d" "0 < d"
    using assms(4) by (rule f32_count)
  have z: "fl_le (Fin 0) (Fin 0)" by simp
  note S = f32_sum_mono [OF assms(1) assms(2) z z]
  from S have "fl_le (f32_div (foldl f32_add (Fin 0) xs) (Fin d))
                     (f32_div (foldl f32_add (Fin 0) ys) (Fin d))"
    using d(2) by (intro f32_div_mono) simp_all
  then show ?thesis by (simp only: f32_mean_def len d(1))
qed

lemma loss_sparsity_rays: "loss_sparsity t = f32_mean (map sparsity_ray (data t))"
  unfolding loss_sparsity_def sparsity_ray_def [abs_def] by (simp add: comp_def)

lemma tenth_le_f32: "1 / 10 \<le> f32_tenth"
  by (simp add: f32_tenth_def)

lemma loss_sparsity_single_zero:
  "loss_sparsity \<lparr>shape = s, data = [0]\<rparr> = Fin f32_tenth"
  by (simp add: loss_sparsity_def f32_mean_def f32_tenth_def f32_eval)


section \<open>Checkpoint filtering keeps the scene parameters only\<close>

lemma split_on_nonempty: "split_on sep s \<noteq> []"
  by (induction s) auto

lemma hd_split_on: "hd (split_on sep s) = takeWhile (\<lambda>c. c \<noteq> sep) s"
  by (induction s) auto

text \<open>
  Claim C2. \<open>on_save_checkpoint\<close> hands to the base hook the checkpoint whose state
  dict holds, in their order, exactly the entries whose top-level name is neither
  \<open>prompt_processor\<close> nor \<open>guidance\<close>; of the three keys \<open>geometry.w\<close>, \<open>guidance.w\<close>
  and \<open>prompt_processor.w\<close> only \<open>geometry.w\<close> is left.
\<close>

theorem on_save_checkpoint_filters:
  "on_save_checkpoint base checkpoint =
     base (checkpoint\<lparr>state_dict :=
       filter (\<lambda>(k, v). top_level_name k \<noteq> ''prompt_processor''
                          \<and> top_level_name k \<noteq> ''guidance'')
              (state_dict checkpoint)\<rparr>)
   \<and> on_save_checkpoint id
        \<lparr>state_dict = [(''geometry.w'', a), (''guidance.w'', b), (''prompt_processor.w'', c)]\<rparr>
      = \<lparr>state_dict = [(''geometry.w'', a)]\<rparr>"
  by (simp add: on_save_checkpoint_def hd_split_on top_level_name_def)

section \<open>The guidance model is constructed once\<close>

lemma setup_guidance_keeps:
  "guidance s \<noteq> None \<Longrightarrow> setup_guidance reg s = Inr s"
  by (auto simp: setup_guidance_def)

lemma setup_guidance_n_keeps:
  "guidance s \<noteq> None \<Longrightarrow> setup_guidance_n n reg s = Inr s"
  by (induction n) (simp_all add: setup_guidance_keeps)

lemma setup_guidance_constructs:
  "guidance s = None \<Longrightarrow> find_guidance reg (guidance_type (cfg s)) = Some mk \<Longrightarrow>
   setup_guidance reg s =
     Inr (s\<lparr>guidance := Some (mk (cfg_guidance (cfg s))),
            trace := trace s @ [Construct_guidance (guidance_type (cfg s))]\<rparr>)"
  by (simp add: setup_guidance_def)

text \<open>
  Claim C9. With the guidance type registered, the first call of \<open>setup_guidance\<close>
  constructs the model if there is none (one construction) and keeps the one there is
  (no construction); every later call, whatever the registry holds by then, returns
  the controller as it is, so any number of calls in a row ends in the state the first
  call made and the model is constructed at most once.
\<close>

theorem setup_guidance_idempotent:
  assumes "find_guidance reg (guidance_type (cfg s)) = Some mk"
  shows "\<exists>s1. setup_guidance reg s = Inr s1
           \<and> guidance s1 = Some (case guidance s of None \<Rightarrow> mk (cfg_guidance (cfg s)) | Some g \<Rightarrow> g)
           \<and> guidance_constructions s1 =
               guidance_constructions s + (if guidance s = None then 1 else 0)
           \<and> (\<forall>n reg'. setup_guidance_n n reg' s1 = Inr s1)
           \<and> (\<forall>n. setup_guidance_n (Suc n) reg s = Inr s1)"
proof (cases "guidance s")
  case None
  let ?s1 = "s\<lparr>guidance := Some (mk (cfg_guidance (cfg s))),
               trace := trace s @ [Construct_guidance (guidance_type (cfg s))]\<rparr>"
  have first: "setup_guidance reg s = Inr ?s1"
    using None assms by (rule setup_guidance_constructs)
  have "guidance ?s1 \<noteq> None" by simp
  then have later: "\<And>n reg'. setup_guidance_n n reg' ?s1 = Inr ?s1"
    by (rule setup_guidance_n_keeps)
  show ?thesis
    using first later None by (simp add: guidance_constructions_def)
next
  case (Some g)
  then have first: "setup_guidance reg s = Inr s"
    by (simp add: setup_guidance_keeps)
  have later: "\<And>n reg'. setup_guidance_n n reg' s = Inr s"
    using Some by (simp add: setup_guidance_n_keeps)
  show ?thesis using first later Some by simp
qed

theorem setup_guidance_idempotent_witness:
  "\<exists>s1. setup_guidance ex_registry (ex_system False [] Map.empty) = Inr s1
     \<and> guidance s1 = Some ex_guidance
     \<and> guidance_constructions s1 = 1
     \<and> setup_guidance_n 3 ex_registry s1 = Inr s1
     \<and> setup_guidance_n 4 ex_registry (ex_system False [] Map.empty) = Inr s1"
  using setup_guidance_idempotent
    [of ex_registry "ex_system False [] Map.empty" "\<lambda>opts. ex_guidance"]
  apply (simp add: ex_registry_def ex_system_def ex_config_def configure_def
      guidance_constructions_def numeral_eq_Suc del: setup_guidance_n.simps)
  apply (elim exE conjE)
  subgoal for s1 by (rule exI [of _ s1]) simp
  done

section \<open>The phase hooks and the guidance model\<close>

lemma refinement_run_hook:
  "refinement (cfg s) \<Longrightarrow> h \<noteq> Fit_start \<Longrightarrow> run_hook reg h s = Inr s"
  by (cases h) (simp_all add: on_validation_start_def on_test_start_def)

lemma refinement_run_hooks:
  "refinement (cfg s) \<Longrightarrow> Fit_start \<notin> set hs \<Longrightarrow> run_hooks reg hs s = Inr s"
  by (induction hs) (auto simp: refinement_run_hook)

lemma setup_guidance_ready:
  "setup_guidance reg s = Inr s' \<Longrightarrow> guidance s' \<noteq> None \<and> cfg s' = cfg s"
  by (auto simp: setup_guidance_def split: if_splits option.splits)

lemma run_hook_ready:
  "run_hook reg h s = Inr s' \<Longrightarrow>
   cfg s' = cfg s \<and> (\<not> refinement (cfg s) \<longrightarrow> guidance s' \<noteq> None)"
proof (cases h)
  case Fit_start
  assume "run_hook reg h s = Inr s'"
  with Fit_start obtain mk where
      "setup_guidance reg
         (s\<lparr>prompt_processor := Some (mk (cfg_prompt_processor (cfg s))),
            trace := trace s @ [Construct_prompt_processor (prompt_processor_type (cfg s))]\<rparr>)
       = Inr s'"
    by (auto simp: on_fit_start_def split: option.splits)
  from setup_guidance_ready [OF this] show ?thesis by simp
next
  case Validation_start
  assume "run_hook reg h s = Inr s'"
  with Validation_start show ?thesis
    by (auto simp: on_validation_start_def dest: setup_guidance_ready split: if_splits)
next
  case Test_start
  assume "run_hook reg h s = Inr s'"
  with Test_start show ?thesis
    by (auto simp: on_test_start_def dest: setup_guidance_ready split: if_splits)
qed

lemma run_hooks_ready:
  "\<not> refinement (cfg s) \<Longrightarrow> guidance s \<noteq> None \<or> hs \<noteq> [] \<Longrightarrow>
   run_hooks reg hs s = Inr s' \<Longrightarrow> guidance s' \<noteq> None"
proof (induction hs arbitrary: s)
  case Nil
  then show ?case by simp
next
  case (Cons h hs)
  from Cons.prems(3) obtain s1 where
      1: "run_hook reg h s = Inr s1" and 2: "run_hooks reg hs s1 = Inr s'"
    by (auto split: sum.splits)
  from run_hook_ready [OF 1] Cons.prems(1)
  have "\<not> refinement (cfg s1)" "guidance s1 \<noteq> None" by simp_all
  then show ?case using 2 by (intro Cons.IH) simp_all
qed

lemma training_step_needs_guidance:
  "prompt_processor s = Some pp \<Longrightarrow> renderer s batch ''comp_rgb'' = Some rgb \<Longrightarrow>
   guidance s = None \<Longrightarrow>
   training_step C s batch = Inl (TypeError ''NoneType object is not callable'', [])"
  by (simp add: training_step_def forward_def sds_stage_def lookup_def)

lemma sds_stage_queries_guidance:
  "prompt_processor s = Some pp \<Longrightarrow> out ''comp_rgb'' = Some rgb \<Longrightarrow> guidance s = Some g \<Longrightarrow>
   sds_stage C s batch out =
     (case lookup (guide g rgb (pp batch) (\<not> refinement (cfg s))) ''sds'' of
        Inl e \<Rightarrow> Inl e
      | Inr sds \<Rightarrow>
         (case loss_weight C (cfg s) ''lambda_sds'' of
            Inl e \<Rightarrow> Inl e
          | Inr w \<Rightarrow> Inr (fl_add (Fin 0) (fl_scale sds w))))"
  by (simp add: sds_stage_def lookup_def Let_def)

text \<open>
  Claim C10, as the code has it. \<open>on_fit_start\<close>, the hook the framework calls once
  before training begins, ends in \<open>setup_guidance\<close> in every mode, so with both types
  registered the guidance model exists after it, also in refinement mode: the training
  step calls the guidance model there too, with \<open>rgb_as_latents = False\<close>, and fails
  without one. \<open>on_validation_start\<close> and \<open>on_test_start\<close>, the hooks called before
  each validation and test phase, are \<open>setup_guidance\<close> when the controller is not in
  refinement mode and change nothing when it is; a run of validation and test starts
  in refinement mode leaves the controller as it was, and outside refinement mode the
  guidance model exists after any phase has started.
\<close>

theorem hooks_setup_guidance:
  "(find_prompt_processor reg (prompt_processor_type (cfg s)) = Some mkp \<longrightarrow>
      on_fit_start reg s =
        setup_guidance reg
          (s\<lparr>prompt_processor := Some (mkp (cfg_prompt_processor (cfg s))),
             trace := trace s @ [Construct_prompt_processor (prompt_processor_type (cfg s))]\<rparr>))
   \<and> (find_prompt_processor reg (prompt_processor_type (cfg s)) = Some mkp
        \<and> find_guidance reg (guidance_type (cfg s)) = Some mkg \<longrightarrow>
        (\<exists>s'. on_fit_start reg s = Inr s' \<and> guidance s' \<noteq> None))
   \<and> (\<not> refinement (cfg s) \<longrightarrow>
        on_validation_start reg s = setup_guidance reg s
        \<and> on_test_start reg s = setup_guidance reg s)
   \<and> (refinement (cfg s) \<longrightarrow>
        on_validation_start reg s = Inr s \<and> on_test_start reg s = Inr s)
   \<and> (refinement (cfg s) \<and> Fit_start \<notin> set hs \<longrightarrow> run_hooks reg hs s = Inr s)
   \<and> (\<not> refinement (cfg s) \<and> hs \<noteq> [] \<and> run_hooks reg hs s = Inr s1 \<longrightarrow>
        guidance s1 \<noteq> None)
   \<and> (refinement (cfg s) \<and> prompt_processor s = Some pp \<and> out ''comp_rgb'' = Some rgb
        \<and> guidance s = Some g \<longrightarrow>
        sds_stage C s batch out =
          (case lookup (guide g rgb (pp batch) False) ''sds'' of
             Inl e \<Rightarrow> Inl e
           | Inr sds \<Rightarrow>
              (case loss_weight C (cfg s) ''lambda_sds'' of
                 Inl e \<Rightarrow> Inl e
               | Inr w \<Rightarrow> Inr (fl_add (Fin 0) (fl_scale sds w)))))
   \<and> (prompt_processor s = Some pp \<and> renderer s batch ''comp_rgb'' = Some rgb
        \<and> guidance s = None \<longrightarrow>
        training_step C s batch = Inl (TypeError ''NoneType object is not callable'', []))"
proof (intro conjI impI)
  show "guidance s1 \<noteq> None"
    if "\<not> refinement (cfg s) \<and> hs \<noteq> [] \<and> run_hooks reg hs s = Inr s1"
    using that run_hooks_ready [of s hs reg s1] by simp
  show "sds_stage C s batch out =
          (case lookup (guide g rgb (pp batch) False) ''sds'' of
             Inl e \<Rightarrow> Inl e
           | Inr sds \<Rightarrow>
              (case loss_weight C (cfg s) ''lambda_sds'' of
                 Inl e \<Rightarrow> Inl e
               | Inr w \<Rightarrow> Inr (fl_add (Fin 0) (fl_scale sds w))))"
    if "refinement (cfg s) \<and> prompt_processor s = Some pp \<and> out ''comp_rgb'' = Some rgb
        \<and> guidance s = Some g"
    using that sds_stage_queries_guidance [of s pp out rgb g C batch] by simp
  show "training_step C s batch = Inl (TypeError ''NoneType object is not callable'', [])"
    if "prompt_processor s = Some pp \<and> renderer s batch ''comp_rgb'' = Some rgb
        \<and> guidance s = None"
    using that training_step_needs_guidance [of s pp batch rgb C] by simp
qed (auto simp: on_fit_start_def on_validation_start_def on_test_start_def
      refinement_run_hooks setup_guidance_def)

theorem hooks_setup_guidance_witness:
  "on_fit_start ex_registry (ex_system True [] Map.empty) =
      setup_guidance ex_registry
        ((ex_system True [] Map.empty)
           \<lparr>prompt_processor := Some (\<lambda>batch. ()),
            trace := trace (ex_system True [] Map.empty) @
              [Construct_prompt_processor
                 (prompt_processor_type (cfg (ex_system True [] Map.empty)))]\<rparr>)
   \<and> (\<exists>s'. on_fit_start ex_registry (ex_system True [] Map.empty) = Inr s' \<and> guidance s' \<noteq> None)
   \<and> on_validation_start ex_registry (ex_system True [] Map.empty) = Inr (ex_system True [] Map.empty)
   \<and> on_test_start ex_registry (ex_system True [] Map.empty) = Inr (ex_system True [] Map.empty)
   \<and> run_hooks ex_registry [Validation_start, Test_start, Validation_start]
        (ex_system True [] Map.empty) = Inr (ex_system True [] Map.empty)
   \<and> on_validation_start ex_registry (ex_system False [] Map.empty) =
        setup_guidance ex_registry (ex_system False [] Map.empty)
   \<and> on_test_start ex_registry (ex_system False [] Map.empty) =
        setup_guidance ex_registry (ex_system False [] Map.empty)
   \<and> guidance ((ex_system False [] Map.empty)
        \<lparr>guidance := Some ex_guidance,
         trace := [Construct_guidance ''stable-diffusion-guidance'']\<rparr>) \<noteq> None
   \<and> sds_stage id ((ex_fitted True (ex_weights 0 0) (ex_out ex_opacity))
        \<lparr>guidance := Some ex_flag_guidance\<rparr>) () (ex_out ex_opacity) = Inr (Fin 0)
   \<and> training_step id ((ex_fitted True (ex_weights 0 0) (ex_out ex_opacity))
        \<lparr>guidance := None\<rparr>) () = Inl (TypeError ''NoneType object is not callable'', [])"
proof -
  let ?T = "ex_system True [] Map.empty :: (unit, unit, unit, real) system"
  let ?F = "ex_system False [] Map.empty :: (unit, unit, unit, real) system"
  let ?F' = "?F\<lparr>guidance := Some ex_guidance,
                 trace := [Construct_guidance ''stable-diffusion-guidance'']\<rparr>"
  let ?R = "ex_fitted True (ex_weights 0 0) (ex_out ex_opacity)"
  let ?hs = "[Validation_start, Test_start, Validation_start]"
  have pp: "find_prompt_processor ex_registry (prompt_processor_type (cfg ?T))
              = Some (\<lambda>opts batch. ())"
    and g: "find_guidance ex_registry (guidance_type (cfg ?T)) = Some (\<lambda>opts. ex_guidance)"
    and rT: "refinement (cfg ?T)" and rF: "\<not> refinement (cfg ?F)"
    by (simp_all add: ex_registry_def ex_system_def ex_config_def configure_def)
  have hs: "Fit_start \<notin> set ?hs" "[Validation_start, Test_start] \<noteq> []"
    by simp_all
  have run: "run_hooks ex_registry [Validation_start, Test_start] ?F = Inr ?F'"
    by (simp add: on_validation_start_def on_test_start_def setup_guidance_def
        ex_registry_def ex_system_def ex_config_def configure_def)
  have flag: "refinement (cfg (?R\<lparr>guidance := Some ex_flag_guidance\<rparr>))"
    "prompt_processor (?R\<lparr>guidance := Some ex_flag_guidance\<rparr>) = Some (\<lambda>batch. ())"
    "ex_out ex_opacity ''comp_rgb'' = Some ex_rgb"
    "guidance (?R\<lparr>guidance := Some ex_flag_guidance\<rparr>) = Some ex_flag_guidance"
    by (simp_all add: ex_fitted_def ex_system_def ex_config_def configure_def ex_out_def)
  have none: "prompt_processor (?R\<lparr>guidance := None\<rparr>) = Some (\<lambda>batch. ())"
    "renderer (?R\<lparr>guidance := None\<rparr>) () ''comp_rgb'' = Some ex_rgb"
    "guidance (?R\<lparr>guidance := None\<rparr>) = None"
    by (simp_all add: ex_fitted_def ex_system_def ex_config_def configure_def ex_out_def)
  have w: "loss_weight id (cfg (?R\<lparr>guidance := Some ex_flag_guidance\<rparr>)) ''lambda_sds'' = Inr 1"
    by (simp add: ex_fitted_def ex_system_def ex_config_def configure_def loss_weight_def
        ex_weights_def)
  note A = hooks_setup_guidance [where reg = ex_registry and s = ?T
      and mkp = "\<lambda>opts batch. ()" and mkg = "\<lambda>opts. ex_guidance" and hs = ?hs]
  note B = hooks_setup_guidance [where reg = ex_registry and s = ?F
      and hs = "[Validation_start, Test_start]" and ?s1.0 = ?F']
  note C = hooks_setup_guidance [where s = "?R\<lparr>guidance := Some ex_flag_guidance\<rparr>"
      and pp = "\<lambda>batch. ()" and out = "ex_out ex_opacity" and rgb = ex_rgb
      and g = ex_flag_guidance and C = id and batch = "()"]
  note D = hooks_setup_guidance [where s = "?R\<lparr>guidance := None\<rparr>"
      and pp = "\<lambda>batch. ()" and rgb = ex_rgb and C = id and batch = "()"]
  from A pp g rT hs(1) have 1:
    "on_fit_start ex_registry ?T =
      setup_guidance ex_registry
        (?T\<lparr>prompt_processor := Some (\<lambda>batch. ()),
            trace := trace ?T @ [Construct_prompt_processor (prompt_processor_type (cfg ?T))]\<rparr>)"
    "\<exists>s'. on_fit_start ex_registry ?T = Inr s' \<and> guidance s' \<noteq> None"
    "on_validation_start ex_registry ?T = Inr ?T"
    "on_test_start ex_registry ?T = Inr ?T"
    "run_hooks ex_registry ?hs ?T = Inr ?T"
    by blast+
  from B rF hs(2) run have 2:
    "on_validation_start ex_registry ?F = setup_guidance ex_registry ?F"
    "on_test_start ex_registry ?F = setup_guidance ex_registry ?F"
    "guidance ?F' \<noteq> None"
    by blast+
  from C flag have "sds_stage id (?R\<lparr>guidance := Some ex_flag_guidance\<rparr>) () (ex_out ex_opacity) =
      (case lookup (guide ex_flag_guidance ex_rgb () False) ''sds'' of
         Inl e \<Rightarrow> Inl e
       | Inr sds \<Rightarrow>
          (case loss_weight id (cfg (?R\<lparr>guidance := Some ex_flag_guidance\<rparr>)) ''lambda_sds'' of
             Inl e \<Rightarrow> Inl e
           | Inr w \<Rightarrow> Inr (fl_add (Fin 0) (fl_scale sds w))))"
    by blast
  then have 3: "sds_stage id (?R\<lparr>guidance := Some ex_flag_guidance\<rparr>) () (ex_out ex_opacity)
      = Inr (Fin 0)"
    unfolding w by (simp add: ex_flag_guidance_def lookup_def)
  from D none have 4: "training_step id (?R\<lparr>guidance := None\<rparr>) ()
      = Inl (TypeError ''NoneType object is not callable'', [])"
    by blast
  from 1 2 3 4 show ?thesis by (intro conjI)
qed

text \<open>
  In refinement mode \<open>on_fit_start\<close> does construct the guidance model: the
  controller below starts without one and has one, constructed once, afterwards.
\<close>

theorem refinement_fit_start_counterexample:
  "refinement (cfg (ex_system True [] Map.empty))
   \<and> guidance (ex_system True [] Map.empty) = None
   \<and> on_fit_start ex_registry (ex_system True [] Map.empty) = Inr (ex_fitted True [] Map.empty)
   \<and> guidance (ex_fitted True [] Map.empty) = Some ex_guidance
   \<and> guidance_constructions (ex_fitted True [] Map.empty) = 1"
  by (simp add: ex_registry_def ex_system_def ex_config_def configure_def ex_fitted_def
      on_fit_start_def setup_guidance_def guidance_constructions_def)

section \<open>Rendering with decoding\<close>

lemma permute_4d:
  "length (shape t) = 4 \<Longrightarrow> sort dims = [0, 1, 2, 3] \<Longrightarrow>
   \<exists>t'. permute dims t = Inr t' \<and> shape t' = map (\<lambda>d. shape t ! d) dims"
  by (simp add: permute_def Let_def upt_rec numeral_eq_Suc)

text \<open>
  Claim C1. With \<open>comp_rgb\<close> in the render output, \<open>forward\<close> with \<open>decode=True\<close>
  returns the render output with one more entry, \<open>decoded_rgb\<close>: in refinement mode
  it is \<open>comp_rgb\<close> itself; otherwise, with the guidance model constructed and
  \<open>comp_rgb\<close> an image batch of four dimensions, it is what the guidance model's
  \<open>decode_latents\<close> makes of \<open>comp_rgb\<close> (channels moved first for the decoder and
  last again afterwards). Without a guidance model the non-refinement call raises.
\<close>

theorem forward_decode:
  assumes rgb: "renderer s batch ''comp_rgb'' = Some rgb"
  shows "(refinement (cfg s) \<longrightarrow>
            forward s batch True = Inr ((renderer s batch)(''decoded_rgb'' \<mapsto> rgb)))
       \<and> (\<not> refinement (cfg s) \<and> guidance s = Some g \<and> length (shape rgb) = 4
            \<and> (\<forall>latents. permute [0, 3, 1, 2] rgb = Inr latents \<longrightarrow>
                  length (shape (decode_latents g latents)) = 4) \<longrightarrow>
            (\<exists>latents img.
                permute [0, 3, 1, 2] rgb = Inr latents
              \<and> permute [0, 2, 3, 1] (decode_latents g latents) = Inr img
              \<and> forward s batch True = Inr ((renderer s batch)(''decoded_rgb'' \<mapsto> img))))
       \<and> (\<not> refinement (cfg s) \<and> guidance s = None \<longrightarrow>
            forward s batch True = Inl (AttributeError ''decode_latents''))"
proof (intro conjI impI)
  assume "refinement (cfg s)"
  then show "forward s batch True = Inr ((renderer s batch)(''decoded_rgb'' \<mapsto> rgb))"
    using rgb by (simp add: forward_def lookup_def)
next
  assume a: "\<not> refinement (cfg s) \<and> guidance s = Some g \<and> length (shape rgb) = 4
            \<and> (\<forall>latents. permute [0, 3, 1, 2] rgb = Inr latents \<longrightarrow>
                  length (shape (decode_latents g latents)) = 4)"
  have s1: "sort [0, 3, 1, 2] = [0, 1, 2, 3::nat]" by simp
  have s2: "sort [0, 2, 3, 1] = [0, 1, 2, 3::nat]" by simp
  from a obtain latents where l: "permute [0, 3, 1, 2] rgb = Inr latents"
    using permute_4d [OF _ s1] by blast
  with a have "length (shape (decode_latents g latents)) = 4" by simp
  then obtain img where i: "permute [0, 2, 3, 1] (decode_latents g latents) = Inr img"
    using permute_4d [OF _ s2] by blast
  have "forward s batch True = Inr ((renderer s batch)(''decoded_rgb'' \<mapsto> img))"
    using a rgb l i by (simp add: forward_def lookup_def)
  with l i show "\<exists>latents img.
                permute [0, 3, 1, 2] rgb = Inr latents
              \<and> permute [0, 2, 3, 1] (decode_latents g latents) = Inr img
              \<and> forward s batch True = Inr ((renderer s batch)(''decoded_rgb'' \<mapsto> img))"
    by blast
next
  assume "\<not> refinement (cfg s) \<and> guidance s = None"
  then show "forward s batch True = Inl (AttributeError ''decode_latents'')"
    by (simp add: forward_def)
qed

lemma ex_latents:
  "permute [0, 3, 1, 2] ex_rgb = Inr \<lparr>shape = [1, 2, 1, 2], data = [1, 3, 2, 4]\<rparr>"
  by (simp add: permute_def ex_rgb_def Let_def upt_rec)

lemma ex_decoded:
  "permute [0, 2, 3, 1] (decode_latents ex_guidance \<lparr>shape = [1, 2, 1, 2], data = [1, 3, 2, 4]\<rparr>)
     = Inr \<lparr>shape = [1, 1, 2, 2], data = [2, 4, 6, 8]\<rparr>"
  by (simp add: permute_def ex_guidance_def tmap_def Let_def upt_rec)

theorem forward_decode_witness:
  "forward (ex_system True [] (ex_out ex_opacity)) () True
     = Inr ((ex_out ex_opacity)(''decoded_rgb'' \<mapsto> ex_rgb))
   \<and> forward (ex_fitted False [] (ex_out ex_opacity)) () True
     = Inr ((ex_out ex_opacity)
             (''decoded_rgb'' \<mapsto> \<lparr>shape = [1, 1, 2, 2], data = [2, 4, 6, 8]\<rparr>))
   \<and> forward (ex_system False [] (ex_out ex_opacity)) () True
     = Inl (AttributeError ''decode_latents'')"
proof -
  let ?out = "ex_out ex_opacity"
  let ?R = "ex_system True [] ?out" and ?F = "ex_fitted False [] ?out"
  let ?N = "ex_system False [] ?out"
  have r: "renderer ?R () = ?out" "renderer ?F () = ?out" "renderer ?N () = ?out"
    by (simp_all add: ex_system_def ex_fitted_def configure_def)
  have rgb: "?out ''comp_rgb'' = Some ex_rgb" by (simp add: ex_out_def)
  have m: "refinement (cfg ?R)" "\<not> refinement (cfg ?F)" "\<not> refinement (cfg ?N)"
    by (simp_all add: ex_system_def ex_fitted_def configure_def ex_config_def)
  have g: "guidance ?F = Some ex_guidance" "guidance ?N = None"
    by (simp_all add: ex_system_def ex_fitted_def configure_def)
  have d: "length (shape ex_rgb) = 4
        \<and> (\<forall>latents. permute [0, 3, 1, 2] ex_rgb = Inr latents \<longrightarrow>
              length (shape (decode_latents ex_guidance latents)) = 4)"
    unfolding ex_latents by (auto simp: ex_rgb_def ex_guidance_def tmap_def)
  have 1: "forward ?R () True = Inr (?out(''decoded_rgb'' \<mapsto> ex_rgb))"
    using forward_decode [of ?R "()" ex_rgb ex_guidance] r rgb m by simp
  have "\<exists>latents img.
          permute [0, 3, 1, 2] ex_rgb = Inr latents
        \<and> permute [0, 2, 3, 1] (decode_latents ex_guidance latents) = Inr img
        \<and> forward ?F () True = Inr (?out(''decoded_rgb'' \<mapsto> img))"
    using forward_decode [of ?F "()" ex_rgb ex_guidance] r rgb m g d by simp
  then obtain latents img where
      l: "permute [0, 3, 1, 2] ex_rgb = Inr latents"
    and i: "permute [0, 2, 3, 1] (decode_latents ex_guidance latents) = Inr img"
    and f: "forward ?F () True = Inr (?out(''decoded_rgb'' \<mapsto> img))"
    by blast
  from l have lat: "latents = \<lparr>shape = [1, 2, 1, 2], data = [1, 3, 2, 4]\<rparr>"
    unfolding ex_latents by simp
  have "permute [0, 2, 3, 1] (decode_latents ex_guidance latents)
      = Inr \<lparr>shape = [1, 1, 2, 2], data = [2, 4, 6, 8]\<rparr>"
    unfolding lat by (rule ex_decoded)
  with i have "img = \<lparr>shape = [1, 1, 2, 2], data = [2, 4, 6, 8]\<rparr>"
    by simp
  with f have 2: "forward ?F () True
     = Inr (?out(''decoded_rgb'' \<mapsto> \<lparr>shape = [1, 1, 2, 2], data = [2, 4, 6, 8]\<rparr>))"
    by simp
  have 3: "forward ?N () True = Inl (AttributeError ''decode_latents'')"
    using forward_decode [of ?N "()" ex_rgb ex_guidance] r rgb m g by simp
  from 1 2 3 show ?thesis by blast
qed

section \<open>Stages of the training step\<close>

lemma forward_plain: "forward s batch False = Inr (renderer s batch)"
  by (simp add: forward_def)

lemma orient_stage_off:
  "loss_weight C c ''lambda_orient'' = Inr w \<Longrightarrow> \<not> 0 < w \<Longrightarrow> orient_stage C c out a = Inr a"
  by (simp add: orient_stage_def)

lemma orient_stage_no_normal:
  "loss_weight C c ''lambda_orient'' = Inr w \<Longrightarrow> 0 < w \<Longrightarrow> out ''normal'' = None \<Longrightarrow>
   orient_stage C c out a =
     Inl (ValueError ''Normal is required for orientation loss, no normal is found in the output.'',
          snd a)"
  by (simp add: orient_stage_def)

lemma orient_stage_keys:
  "orient_stage C c out a = Inr a' \<Longrightarrow> k \<noteq> ''train/loss_orient'' \<Longrightarrow>
   k \<in> fst ` set (snd a') \<Longrightarrow> k \<in> fst ` set (snd a)"
  by (auto simp: orient_stage_def split: sum.splits if_splits)

lemma sparsity_stage_keys:
  "sparsity_stage C c out a = Inr a' \<Longrightarrow> k \<noteq> ''train/loss_sparsity'' \<Longrightarrow>
   k \<in> fst ` set (snd a') \<Longrightarrow> k \<in> fst ` set (snd a)"
  by (auto simp: sparsity_stage_def Let_def split: sum.splits if_splits)

lemma opaque_stage_keys:
  "opaque_stage C c out a = Inr a' \<Longrightarrow> k \<noteq> ''train/loss_opaque'' \<Longrightarrow>
   k \<in> fst ` set (snd a') \<Longrightarrow> k \<in> fst ` set (snd a)"
  by (auto simp: opaque_stage_def Let_def split: sum.splits if_splits)

lemma shape_stage_keys:
  "shape_stage C s out a = Inr a' \<Longrightarrow> k \<noteq> ''train/loss_shape'' \<Longrightarrow>
   k \<in> fst ` set (snd a') \<Longrightarrow> k \<in> fst ` set (snd a)"
  by (auto simp: shape_stage_def Let_def split: sum.splits if_splits option.splits)

lemma log_params_keys:
  "k \<in> fst ` set (log_params C c lg) \<Longrightarrow> \<forall>n. k \<noteq> ''train_params/'' @ n \<Longrightarrow>
   k \<in> fst ` set lg"
  by (auto simp: log_params_def)

lemma training_step_stages:
  assumes "training_step C s batch = Inr (loss, lg)"
  obtains l0 a1 a2 a3 a4 where
    "sds_stage C s batch (renderer s batch) = Inr l0"
    "orient_stage C (cfg s) (renderer s batch) (l0, []) = Inr a1"
    "sparsity_stage C (cfg s) (renderer s batch) a1 = Inr a2"
    "opaque_stage C (cfg s) (renderer s batch) a2 = Inr a3"
    "shape_stage C s (renderer s batch) a3 = Inr a4"
    "loss = fst a4" "lg = log_params C (cfg s) (snd a4)"
  using assms by (auto simp: training_step_def forward_plain split: sum.splits)

lemma shape_stage_no_points:
  "out ''points'' = Some pts \<Longrightarrow> shape pts = 0 # ds \<Longrightarrow>
   shape_stage C s out a =
     (case loss_weight C (cfg s) ''lambda_shape'' of Inl e \<Rightarrow> Inl (e, snd a) | Inr w \<Rightarrow> Inr a)"
  by (simp add: shape_stage_def lookup_def shape0_def split: sum.splits)

lemma shape_stage_evaluator:
  "shape_stage C (s\<lparr>shape_loss := ev\<rparr>) out a \<noteq> shape_stage C s out a \<Longrightarrow>
   \<exists>w p n. loss_weight C (cfg s) ''lambda_shape'' = Inr w \<and> 0 < w
      \<and> out ''points'' = Some p \<and> shape0 p = Inr n \<and> 0 < n"
  by (auto simp: shape_stage_def lookup_def split: sum.splits if_splits option.splits)

lemma sds_stage_shape_loss: "sds_stage C (s\<lparr>shape_loss := ev\<rparr>) batch out = sds_stage C s batch out"
  by (simp add: sds_stage_def cong: sum.case_cong option.case_cong)

lemma training_step_shape_loss:
  assumes "renderer s batch ''points'' = Some pts" "shape pts = 0 # ds"
  shows "training_step C (s\<lparr>shape_loss := ev\<rparr>) batch = training_step C s batch"
  using assms
  by (simp add: training_step_def forward_plain sds_stage_shape_loss shape_stage_no_points
      cong: sum.case_cong)

lemma ex_sds_stage:
  "out ''comp_rgb'' = Some rgb \<Longrightarrow>
   sds_stage id (ex_fitted r (ex_weights a b) out') () out = Inr (Fin 1)"
  by (simp add: sds_stage_def ex_fitted_def ex_system_def configure_def ex_config_def
      ex_weights_def lookup_def loss_weight_def ex_guidance_def)

lemma ex_loss_weight:
  "loss_weight id (cfg (ex_fitted r (ex_weights a b) out)) ''lambda_orient'' = Inr a"
  "loss_weight id (cfg (ex_fitted r (ex_weights a b) out)) ''lambda_sparsity'' = Inr 1"
  "loss_weight id (cfg (ex_fitted r (ex_weights a b) out)) ''lambda_opaque'' = Inr 1"
  "loss_weight id (cfg (ex_fitted r (ex_weights a b) out)) ''lambda_shape'' = Inr b"
  by (simp_all add: ex_fitted_def ex_system_def configure_def loss_weight_def ex_config_def
      ex_weights_def)

lemma ex_renderer: "renderer (ex_fitted r ws out) batch = out"
  by (simp add: ex_fitted_def ex_system_def configure_def)

lemma ex_step_without_orient_and_shape:
  "out ''comp_rgb'' = Some rgb \<Longrightarrow> out ''opacity'' = Some opacity \<Longrightarrow>
   \<exists>loss lg. training_step id (ex_fitted r (ex_weights 0 0) out) () = Inr (loss, lg)"
  by (simp add: training_step_def forward_plain ex_renderer ex_sds_stage orient_stage_def
      sparsity_stage_def opaque_stage_def shape_stage_def ex_loss_weight lookup_def Let_def)

section \<open>The shape term\<close>

text \<open>
  Claim C8. When the render output has no sample point (\<open>points.shape[0] = 0\<close>) the
  shape stage leaves the loss and the log as they are, whatever the weight; the step
  does not depend on the shape-loss evaluator (not even on there being one), and logs
  no \<open>train/loss_shape\<close>. In general the evaluator can only make a difference to the
  stage when \<open>lambda_shape\<close> is positive and there is at least one sample point.
\<close>

theorem shape_loss_skipped:
  "(renderer s batch ''points'' = Some pts \<and> shape pts = 0 # ds \<longrightarrow>
      (\<forall>a. shape_stage C s (renderer s batch) a =
             (case loss_weight C (cfg s) ''lambda_shape'' of
                Inl e \<Rightarrow> Inl (e, snd a) | Inr w \<Rightarrow> Inr a))
    \<and> (\<forall>ev. training_step C (s\<lparr>shape_loss := ev\<rparr>) batch = training_step C s batch)
    \<and> (\<forall>loss lg. training_step C s batch = Inr (loss, lg) \<longrightarrow>
          ''train/loss_shape'' \<notin> fst ` set lg))
   \<and> (\<forall>out a ev. shape_stage C (s\<lparr>shape_loss := ev\<rparr>) out a \<noteq> shape_stage C s out a \<longrightarrow>
        (\<exists>w p n. loss_weight C (cfg s) ''lambda_shape'' = Inr w \<and> 0 < w
           \<and> out ''points'' = Some p \<and> shape0 p = Inr n \<and> 0 < n))"
proof (intro conjI impI allI)
  fix a
  assume "renderer s batch ''points'' = Some pts \<and> shape pts = 0 # ds"
  then show "shape_stage C s (renderer s batch) a =
             (case loss_weight C (cfg s) ''lambda_shape'' of
                Inl e \<Rightarrow> Inl (e, snd a) | Inr w \<Rightarrow> Inr a)"
    by (simp add: shape_stage_no_points)
next
  fix ev
  assume "renderer s batch ''points'' = Some pts \<and> shape pts = 0 # ds"
  then show "training_step C (s\<lparr>shape_loss := ev\<rparr>) batch = training_step C s batch"
    by (simp add: training_step_shape_loss)
next
  fix loss lg
  assume p: "renderer s batch ''points'' = Some pts \<and> shape pts = 0 # ds"
    and t: "training_step C s batch = Inr (loss, lg)"
  from t obtain l0 a1 a2 a3 a4 where
      1: "orient_stage C (cfg s) (renderer s batch) (l0, []) = Inr a1"
    and 2: "sparsity_stage C (cfg s) (renderer s batch) a1 = Inr a2"
    and 3: "opaque_stage C (cfg s) (renderer s batch) a2 = Inr a3"
    and 4: "shape_stage C s (renderer s batch) a3 = Inr a4"
    and lg: "lg = log_params C (cfg s) (snd a4)"
    by (rule training_step_stages)
  from p 4 have a4: "a4 = a3"
    by (simp add: shape_stage_no_points split: sum.splits)
  show "''train/loss_shape'' \<notin> fst ` set lg"
  proof
    assume "''train/loss_shape'' \<in> fst ` set lg"
    then have "''train/loss_shape'' \<in> fst ` set (snd a4)"
      unfolding lg by (rule log_params_keys) simp
    then have "''train/loss_shape'' \<in> fst ` set (snd a3)" by (simp add: a4)
    then have "''train/loss_shape'' \<in> fst ` set (snd a2)"
      by (rule opaque_stage_keys [OF 3, rotated]) simp
    then have "''train/loss_shape'' \<in> fst ` set (snd a1)"
      by (rule sparsity_stage_keys [OF 2, rotated]) simp
    then show False
      using orient_stage_keys [OF 1, of "''train/loss_shape''"] by simp
  qed
next
  fix out a ev
  assume "shape_stage C (s\<lparr>shape_loss := ev\<rparr>) out a \<noteq> shape_stage C s out a"
  then show "\<exists>w p n. loss_weight C (cfg s) ''lambda_shape'' = Inr w \<and> 0 < w
           \<and> out ''points'' = Some p \<and> shape0 p = Inr n \<and> 0 < n"
    by (rule shape_stage_evaluator)
qed

lemma ex_step_runs:
  "\<exists>loss lg. training_step id (ex_fitted False (ex_weights 0 1) ex_empty_out) () = Inr (loss, lg)"
  by (simp add: training_step_def forward_plain ex_fitted_def ex_system_def configure_def
      ex_config_def ex_weights_def ex_empty_out_def sds_stage_def orient_stage_def
      sparsity_stage_def opaque_stage_def shape_stage_def shape0_def lookup_def loss_weight_def
      ex_guidance_def Let_def)

theorem shape_loss_skipped_witness:
  "shape_stage id (ex_fitted False (ex_weights 0 1) ex_empty_out) ex_empty_out (Fin 1, [])
     = Inr (Fin 1, [])
   \<and> shape_loss (ex_fitted False (ex_weights 0 1) ex_empty_out) = None
   \<and> training_step id
        ((ex_fitted False (ex_weights 0 1) ex_empty_out)\<lparr>shape_loss := Some (\<lambda>p d. Fin 7)\<rparr>) ()
      = training_step id (ex_fitted False (ex_weights 0 1) ex_empty_out) ()
   \<and> (\<exists>loss lg. training_step id (ex_fitted False (ex_weights 0 1) ex_empty_out) () = Inr (loss, lg)
        \<and> ''train/loss_shape'' \<notin> fst ` set lg)"
proof -
  let ?s = "ex_fitted False (ex_weights 0 1) ex_empty_out"
  have r: "renderer ?s () = ex_empty_out"
    by (simp add: ex_fitted_def ex_system_def configure_def)
  have p: "renderer ?s () ''points'' = Some \<lparr>shape = [0, 3], data = []\<rparr>
      \<and> shape \<lparr>shape = [0, 3], data = []\<rparr> = 0 # [3]"
    unfolding r by (simp add: ex_empty_out_def)
  have w: "loss_weight id (cfg ?s) ''lambda_shape'' = Inr 1"
    by (simp add: loss_weight_def ex_fitted_def ex_system_def configure_def ex_config_def
        ex_weights_def)
  have n: "shape_loss ?s = None"
    by (simp add: ex_fitted_def ex_system_def configure_def ex_config_def)
  note T = shape_loss_skipped [of ?s "()" "\<lparr>shape = [0, 3], data = []\<rparr>" "[3]" id]
  from T p have a: "shape_stage id ?s (renderer ?s ()) (Fin 1, []) =
             (case loss_weight id (cfg ?s) ''lambda_shape'' of
                Inl e \<Rightarrow> Inl (e, snd (Fin 1, [])) | Inr w \<Rightarrow> Inr (Fin 1, []))"
    by blast
  from T p have b: "training_step id (?s\<lparr>shape_loss := Some (\<lambda>p d. Fin 7)\<rparr>) ()
      = training_step id ?s ()"
    by blast
  from T p have c: "\<And>loss lg. training_step id ?s () = Inr (loss, lg) \<Longrightarrow>
          ''train/loss_shape'' \<notin> fst ` set lg"
    by blast
  from a have a': "shape_stage id ?s ex_empty_out (Fin 1, []) = Inr (Fin 1, [])"
    by (simp add: r w)
  from ex_step_runs c have d: "\<exists>loss lg. training_step id ?s () = Inr (loss, lg)
        \<and> ''train/loss_shape'' \<notin> fst ` set lg"
    by blast
  from a' n b d show ?thesis by blast
qed

section \<open>The orientation term\<close>

lemma training_step_fails_without_normal:
  assumes "loss_weight C (cfg s) ''lambda_orient'' = Inr w" "0 < w"
    "renderer s batch ''normal'' = None"
  shows "training_step C s batch =
    (case sds_stage C s batch (renderer s batch) of
       Inl e \<Rightarrow> Inl (e, [])
     | Inr l0 \<Rightarrow> Inl (ValueError
         ''Normal is required for orientation loss, no normal is found in the output.'', []))"
  using assms
  by (simp add: training_step_def forward_plain orient_stage_no_normal split: sum.splits)

lemma training_step_fails_without_t_dirs:
  assumes "loss_weight C (cfg s) ''lambda_orient'' = Inr w" "0 < w"
    "renderer s batch ''normal'' = Some n" "renderer s batch ''t_dirs'' = None"
  shows "training_step C s batch =
    (case sds_stage C s batch (renderer s batch) of
       Inl e \<Rightarrow> Inl (e, [])
     | Inr l0 \<Rightarrow>
        (case renderer s batch ''weights'' of
           None \<Rightarrow> Inl (KeyError ''weights'', [])
         | Some ws \<Rightarrow> Inl (KeyError ''t_dirs'', [])))"
  using assms
  by (simp add: training_step_def forward_plain orient_stage_def loss_orient_def lookup_def
      split: sum.splits option.splits)

lemma sds_stage_not_ValueError: "sds_stage C s batch out \<noteq> Inl (ValueError msg)"
  by (simp add: sds_stage_def lookup_def loss_weight_def Let_def split: option.splits sum.splits)

lemma sds_stage_normal:
  "sds_stage C (s\<lparr>renderer := r\<rparr>) batch (out(''normal'' := x)) = sds_stage C s batch out"
  by (simp add: sds_stage_def lookup_def cong: sum.case_cong option.case_cong)

lemma sparsity_stage_normal:
  "sparsity_stage C c (out(''normal'' := x)) a = sparsity_stage C c out a"
  by (simp add: sparsity_stage_def lookup_def)

lemma opaque_stage_normal:
  "opaque_stage C c (out(''normal'' := x)) a = opaque_stage C c out a"
  by (simp add: opaque_stage_def lookup_def)

lemma shape_stage_normal:
  "shape_stage C (s\<lparr>renderer := r\<rparr>) (out(''normal'' := x)) a = shape_stage C s out a"
  by (simp add: shape_stage_def lookup_def cong: sum.case_cong option.case_cong if_cong)

lemma training_step_normal:
  assumes "loss_weight C (cfg s) ''lambda_orient'' = Inr w" "\<not> 0 < w"
  shows "training_step C (s\<lparr>renderer := \<lambda>b. (renderer s b)(''normal'' := x)\<rparr>) batch
         = training_step C s batch"
  using assms
  by (simp add: training_step_def forward_plain sds_stage_normal orient_stage_off
      sparsity_stage_normal opaque_stage_normal shape_stage_normal cong: sum.case_cong)

text \<open>
  Claim C3, as the code has it. With \<open>lambda_orient\<close> positive: if \<open>normal\<close> is
  absent the step fails, and once rendering and guidance went through it fails with
  the \<open>ValueError\<close> of the explicit check, before anything is logged; if \<open>normal\<close> is
  there and \<open>t_dirs\<close> is absent the step fails as well, but never with that
  \<open>ValueError\<close>: the lookup raises \<open>KeyError\<close>. With \<open>lambda_orient\<close> not positive
  the orientation stage changes neither loss nor log, the step is the same whatever
  \<open>normal\<close> is or is not in the render output, and no \<open>train/loss_orient\<close> is logged.
\<close>

theorem orientation_needs_normal:
  assumes w: "loss_weight C (cfg s) ''lambda_orient'' = Inr w"
  shows
   "(0 < w \<and> renderer s batch ''normal'' = None \<longrightarrow>
       (\<exists>e lg. training_step C s batch = Inl (e, lg))
     \<and> (\<forall>l0. sds_stage C s batch (renderer s batch) = Inr l0 \<longrightarrow>
          training_step C s batch =
            Inl (ValueError
              ''Normal is required for orientation loss, no normal is found in the output.'',
              [])))
    \<and> (0 < w \<and> renderer s batch ''normal'' = Some n \<and> renderer s batch ''t_dirs'' = None \<longrightarrow>
       (\<exists>e lg. training_step C s batch = Inl (e, lg) \<and> (\<forall>msg. e \<noteq> ValueError msg))
     \<and> (\<forall>l0 ws. sds_stage C s batch (renderer s batch) = Inr l0
            \<and> renderer s batch ''weights'' = Some ws \<longrightarrow>
          training_step C s batch = Inl (KeyError ''t_dirs'', [])))
    \<and> (\<not> 0 < w \<longrightarrow>
       (\<forall>out a. orient_stage C (cfg s) out a = Inr a)
     \<and> (\<forall>x. training_step C (s\<lparr>renderer := \<lambda>b. (renderer s b)(''normal'' := x)\<rparr>) batch
             = training_step C s batch)
     \<and> (\<forall>loss lg. training_step C s batch = Inr (loss, lg) \<longrightarrow>
          ''train/loss_orient'' \<notin> fst ` set lg))"
proof (intro conjI impI allI)
  assume a: "0 < w \<and> renderer s batch ''normal'' = None"
  then show "\<exists>e lg. training_step C s batch = Inl (e, lg)"
    using training_step_fails_without_normal [OF w, of batch]
    by (auto split: sum.splits)
next
  fix l0
  assume "0 < w \<and> renderer s batch ''normal'' = None"
    and "sds_stage C s batch (renderer s batch) = Inr l0"
  then show "training_step C s batch =
            Inl (ValueError
              ''Normal is required for orientation loss, no normal is found in the output.'',
              [])"
    using training_step_fails_without_normal [OF w, of batch] by simp
next
  assume a: "0 < w \<and> renderer s batch ''normal'' = Some n \<and> renderer s batch ''t_dirs'' = None"
  then have "training_step C s batch =
    (case sds_stage C s batch (renderer s batch) of
       Inl e \<Rightarrow> Inl (e, [])
     | Inr l0 \<Rightarrow>
        (case renderer s batch ''weights'' of
           None \<Rightarrow> Inl (KeyError ''weights'', [])
         | Some ws \<Rightarrow> Inl (KeyError ''t_dirs'', [])))"
    using training_step_fails_without_t_dirs [OF w, of batch n] by simp
  then show "\<exists>e lg. training_step C s batch = Inl (e, lg) \<and> (\<forall>msg. e \<noteq> ValueError msg)"
    using sds_stage_not_ValueError [of C s batch "renderer s batch"]
    by (auto split: sum.splits option.splits)
next
  fix l0 ws
  assume "0 < w \<and> renderer s batch ''normal'' = Some n \<and> renderer s batch ''t_dirs'' = None"
    and "sds_stage C s batch (renderer s batch) = Inr l0 \<and> renderer s batch ''weights'' = Some ws"
  then show "training_step C s batch = Inl (KeyError ''t_dirs'', [])"
    using training_step_fails_without_t_dirs [OF w, of batch n] by simp
next
  fix out a
  assume "\<not> 0 < w"
  with w show "orient_stage C (cfg s) out a = Inr a" by (rule orient_stage_off)
next
  fix x
  assume "\<not> 0 < w"
  with w show "training_step C (s\<lparr>renderer := \<lambda>b. (renderer s b)(''normal'' := x)\<rparr>) batch
             = training_step C s batch"
    by (rule training_step_normal)
next
  fix loss lg
  assume nw: "\<not> 0 < w" and t: "training_step C s batch = Inr (loss, lg)"
  from t obtain l0 a1 a2 a3 a4 where
      1: "orient_stage C (cfg s) (renderer s batch) (l0, []) = Inr a1"
    and 2: "sparsity_stage C (cfg s) (renderer s batch) a1 = Inr a2"
    and 3: "opaque_stage C (cfg s) (renderer s batch) a2 = Inr a3"
    and 4: "shape_stage C s (renderer s batch) a3 = Inr a4"
    and lg: "lg = log_params C (cfg s) (snd a4)"
    by (rule training_step_stages)
  from 1 have a1: "a1 = (l0, [])" using orient_stage_off [OF w nw] by simp
  show "''train/loss_orient'' \<notin> fst ` set lg"
  proof
    assume "''train/loss_orient'' \<in> fst ` set lg"
    then have "''train/loss_orient'' \<in> fst ` set (snd a4)"
      unfolding lg by (rule log_params_keys) simp
    then have "''train/loss_orient'' \<in> fst ` set (snd a3)"
      by (rule shape_stage_keys [OF 4, rotated]) simp
    then have "''train/loss_orient'' \<in> fst ` set (snd a2)"
      by (rule opaque_stage_keys [OF 3, rotated]) simp
    then have "''train/loss_orient'' \<in> fst ` set (snd a1)"
      by (rule sparsity_stage_keys [OF 2, rotated]) simp
    then show False by (simp add: a1)
  qed
qed

text \<open>
  A render output with \<open>normal\<close> and without \<open>t_dirs\<close>: the step ends in a
  \<open>KeyError\<close>, not in the validation error.
\<close>

theorem missing_t_dirs_counterexample:
  "training_step id
     (ex_fitted False (ex_weights 1 0) ((ex_out ex_opacity)(''t_dirs'' := None))) ()
   = Inl (KeyError ''t_dirs'', [])"
  by (simp add: training_step_def forward_plain ex_fitted_def ex_system_def configure_def
      ex_config_def ex_weights_def ex_out_def sds_stage_def orient_stage_def loss_orient_def
      lookup_def loss_weight_def ex_guidance_def Let_def)

theorem orientation_needs_normal_witness:
  "training_step id
     (ex_fitted False (ex_weights 1 0) ((ex_out ex_opacity)(''normal'' := None))) ()
     = Inl (ValueError
         ''Normal is required for orientation loss, no normal is found in the output.'', [])
   \<and> training_step id
     (ex_fitted False (ex_weights 1 0) ((ex_out ex_opacity)(''t_dirs'' := None))) ()
     = Inl (KeyError ''t_dirs'', [])
   \<and> orient_stage id (cfg (ex_fitted False (ex_weights 0 0) (ex_out ex_opacity)))
        ((ex_out ex_opacity)(''normal'' := None)) (Fin 1, []) = Inr (Fin 1, [])
   \<and> training_step id
        ((ex_fitted False (ex_weights 0 0) (ex_out ex_opacity))
           \<lparr>renderer := \<lambda>b. (renderer (ex_fitted False (ex_weights 0 0) (ex_out ex_opacity)) b)
                              (''normal'' := None)\<rparr>) ()
      = training_step id (ex_fitted False (ex_weights 0 0) (ex_out ex_opacity)) ()
   \<and> (\<exists>loss lg. training_step id (ex_fitted False (ex_weights 0 0) (ex_out ex_opacity)) ()
          = Inr (loss, lg) \<and> ''train/loss_orient'' \<notin> fst ` set lg)"
proof -
  let ?A = "ex_fitted False (ex_weights 1 0) ((ex_out ex_opacity)(''normal'' := None))"
  let ?B = "ex_fitted False (ex_weights 1 0) ((ex_out ex_opacity)(''t_dirs'' := None))"
  let ?Z = "ex_fitted False (ex_weights 0 0) (ex_out ex_opacity)"
  have sA: "sds_stage id ?A () (renderer ?A ()) = Inr (Fin 1)"
    unfolding ex_renderer by (rule ex_sds_stage) (simp add: ex_out_def)
  have sB: "sds_stage id ?B () (renderer ?B ()) = Inr (Fin 1)"
    unfolding ex_renderer by (rule ex_sds_stage) (simp add: ex_out_def)
  have kA: "renderer ?A () ''normal'' = None"
    by (simp add: ex_renderer)
  have kB: "renderer ?B () ''normal'' = Some \<lparr>shape = [2, 3], data = [1, 0, 0, 0, 1, 0]\<rparr>"
    "renderer ?B () ''t_dirs'' = None"
    "renderer ?B () ''weights'' = Some \<lparr>shape = [2, 1], data = [1 / 2, 1]\<rparr>"
    by (simp_all add: ex_renderer ex_out_def)
  have 1: "training_step id ?A () = Inl (ValueError
         ''Normal is required for orientation loss, no normal is found in the output.'', [])"
    using orientation_needs_normal [OF ex_loss_weight(1), of 1 False 0 "(ex_out ex_opacity)(''normal'' := None)" "()"]
      sA kA by simp
  have 2: "training_step id ?B () = Inl (KeyError ''t_dirs'', [])"
    using orientation_needs_normal [OF ex_loss_weight(1), of 1 False 0 "(ex_out ex_opacity)(''t_dirs'' := None)" "()"
        "\<lparr>shape = [2, 3], data = [1, 0, 0, 0, 1, 0]\<rparr>"]
      sB kB by simp
  note Z = orientation_needs_normal [OF ex_loss_weight(1), of 0 False 0 "ex_out ex_opacity" "()"]
  have 3: "orient_stage id (cfg ?Z) ((ex_out ex_opacity)(''normal'' := None)) (Fin 1, [])
      = Inr (Fin 1, [])"
    using Z by simp
  have 4: "training_step id (?Z\<lparr>renderer := \<lambda>b. (renderer ?Z b)(''normal'' := None)\<rparr>) ()
      = training_step id ?Z ()"
    using Z by simp
  have "\<exists>loss lg. training_step id ?Z () = Inr (loss, lg)"
    by (rule ex_step_without_orient_and_shape) (simp_all add: ex_out_def)
  with Z have 5: "\<exists>loss lg. training_step id ?Z () = Inr (loss, lg)
      \<and> ''train/loss_orient'' \<notin> fst ` set lg"
    by blast
  from 1 2 3 4 5 show ?thesis by blast
qed

lemma ex_transparent_sparsity: "loss_sparsity ex_transparent = Fin f32_tenth"
  by (simp add: loss_sparsity_def f32_mean_def ex_transparent_def f32_tenth_def f32_eval)

lemma f32_value_lo: "f32_value (1 / 1000) = clamp_lo"
  by (simp add: f32_value_def clamp_lo_def f32_eval)

lemma f32_value_hi: "f32_value (1 - 1 / 1000) = clamp_hi"
  by (simp add: f32_value_def clamp_hi_def f32_eval)

lemma opacity_clamped_data:
  "data (opacity_clamped t) = map (\<lambda>x. min (max x clamp_lo) clamp_hi) (data t)"
  unfolding opacity_clamped_def f32_value_lo f32_value_hi
  by (simp add: clamp_def tmap_def)

lemma loss_opaque_Fin:
  "data t \<noteq> [] \<Longrightarrow>
   loss_opaque t =
     Fin ((\<Sum>c\<leftarrow>data (opacity_clamped t). binary_entropy c) / real (length (data t)))"
  by (simp add: loss_opaque_def binary_cross_entropy_def numel_def fl_div_def
      zip_same_conv_map comp_def bce_elem_def binary_entropy_def opacity_clamped_data)

lemma fl_div_zero: "\<not> is_finite (fl_div a 0)"
  by (simp add: fl_div_def)

lemma ex_orient_inf: "loss_orient (ex_out ex_transparent) = Inr PInf"
  by (simp add: loss_orient_def ex_out_def lookup_def dot_def tmul_def tbinop_def
      broadcast_shapes_def src_index_def sum_last_keepdim_def Let_def detach_def tsquare_def
      clamp_min_def tmap_def tsum_def count_gt0_def ex_transparent_def fl_div_def upt_rec)

text \<open>
  Claim C5. A render output with \<open>lambda_orient\<close> positive, \<open>normal\<close> and \<open>t_dirs\<close>
  present and no opacity above zero: the count is 0, the division is reached, the
  orientation loss is infinite, it is logged, and so is the loss the step returns.
\<close>

theorem orient_division_by_zero:
  "loss_weight id (cfg (ex_fitted False (ex_weights 1 0) (ex_out ex_transparent)))
      ''lambda_orient'' = Inr 1
   \<and> ex_out ex_transparent ''normal'' \<noteq> None
   \<and> ex_out ex_transparent ''t_dirs'' \<noteq> None
   \<and> ex_out ex_transparent ''opacity'' = Some ex_transparent
   \<and> count_gt0 ex_transparent = 0
   \<and> loss_orient (ex_out ex_transparent) = Inr PInf
   \<and> (\<exists>lg. training_step id (ex_fitted False (ex_weights 1 0) (ex_out ex_transparent)) ()
              = Inr (PInf, lg)
           \<and> (''train/loss_orient'', PInf) \<in> set lg)"
proof -
  let ?out = "ex_out ex_transparent"
  let ?s = "ex_fitted False (ex_weights 1 0) ?out"
  have c: "cfg ?s = ex_config False (ex_weights 1 0)" and r: "renderer ?s () = ?out"
    by (simp_all add: ex_fitted_def ex_system_def configure_def)
  have w: "loss_weight id (cfg ?s) ''lambda_orient'' = Inr 1"
    "loss_weight id (cfg ?s) ''lambda_sparsity'' = Inr 1"
    "loss_weight id (cfg ?s) ''lambda_opaque'' = Inr 1"
    "loss_weight id (cfg ?s) ''lambda_shape'' = Inr 0"
    unfolding c by (simp_all add: loss_weight_def ex_config_def ex_weights_def)
  have k: "?out ''normal'' \<noteq> None" "?out ''t_dirs'' \<noteq> None"
    "?out ''opacity'' = Some ex_transparent"
    by (simp_all add: ex_out_def)
  have z: "count_gt0 ex_transparent = 0"
    by (simp add: count_gt0_def ex_transparent_def)
  have ne: "data ex_transparent \<noteq> []" by (simp add: ex_transparent_def)
  have 0: "sds_stage id ?s () ?out = Inr (Fin 1)"
    by (simp add: sds_stage_def ex_fitted_def ex_system_def configure_def ex_config_def
        ex_weights_def ex_out_def lookup_def loss_weight_def ex_guidance_def)
  have 1: "orient_stage id (cfg ?s) ?out (Fin 1, []) =
      Inr (PInf, [(''train/loss_orient'', PInf)])"
    using k by (simp add: orient_stage_def w ex_orient_inf)
  have 2: "sparsity_stage id (cfg ?s) ?out (PInf, [(''train/loss_orient'', PInf)]) =
      Inr (PInf, [(''train/loss_orient'', PInf),
                  (''train/loss_sparsity'', loss_sparsity ex_transparent)])"
    using ex_transparent_sparsity
    by (simp add: sparsity_stage_def w k lookup_def Let_def)
  have 3: "opaque_stage id (cfg ?s) ?out
      (PInf, [(''train/loss_orient'', PInf),
              (''train/loss_sparsity'', loss_sparsity ex_transparent)]) =
      Inr (PInf, [(''train/loss_orient'', PInf),
                  (''train/loss_sparsity'', loss_sparsity ex_transparent),
                  (''train/loss_opaque'', loss_opaque ex_transparent)])"
    using loss_opaque_Fin [OF ne]
    by (simp add: opaque_stage_def w k lookup_def Let_def)
  have 4: "shape_stage id ?s ?out a = Inr a" for a
    by (simp add: shape_stage_def w)
  have "training_step id ?s () =
      Inr (PInf, log_params id (cfg ?s)
                  [(''train/loss_orient'', PInf),
                   (''train/loss_sparsity'', loss_sparsity ex_transparent),
                   (''train/loss_opaque'', loss_opaque ex_transparent)])"
    by (simp add: training_step_def forward_plain r 0 1 2 3 4)
  then have "\<exists>lg. training_step id ?s () = Inr (PInf, lg)
           \<and> (''train/loss_orient'', PInf) \<in> set lg"
    by (simp add: log_params_def)
  with w(1) k z ex_orient_inf show ?thesis by blast
qed

section \<open>The value of the orientation term\<close>

lemma bshape_rev_same: "bshape_rev xs xs = Some xs"
  by (induction xs) simp_all

lemma broadcast_shapes_same: "broadcast_shapes s s = Some s"
  by (simp add: broadcast_shapes_def bshape_rev_same)

lemma length_unravel: "length (unravel s i) = length s"
  by (induction s arbitrary: i) simp_all

lemma ravel_unravel:
  "i < prod_list s \<Longrightarrow>
   ravel s (map2 (\<lambda>d j. if d = 1 then 0 else j) s (unravel s i)) = i"
proof (induction s arbitrary: i)
  case Nil
  then show ?case by simp
next
  case (Cons d ds)
  let ?P = "prod_list ds"
  from Cons.prems have lt: "i < d * ?P" by simp
  then have P: "0 < ?P" by (cases "?P = 0") simp_all
  then have "i mod ?P < ?P" by simp
  then have ih: "ravel ds (map2 (\<lambda>d j. if d = 1 then 0 else j) ds (unravel ds (i mod ?P)))
      = i mod ?P"
    by (rule Cons.IH)
  have "(if d = 1 then 0 else i div ?P) = i div ?P"
    using lt by auto
  then show ?case
    using ih by simp
qed

lemma src_index_same: "i < prod_list s \<Longrightarrow> src_index s (unravel s i) = i"
  unfolding src_index_def length_unravel
  by (simp only: diff_self_eq_0 drop_0 ravel_unravel)

lemma tbinop_same_shape:
  assumes "shape a = s" "shape b = s" "length (data a) = prod_list s"
    "length (data b) = prod_list s"
  shows "tbinop f a b = Inr \<lparr>shape = s, data = map2 f (data a) (data b)\<rparr>"
proof -
  have "map (\<lambda>i. f (data a ! src_index s (unravel s i)) (data b ! src_index s (unravel s i)))
          [0..<prod_list s]
      = map2 f (data a) (data b)"
    using assms by (intro nth_equalityI) (simp_all add: src_index_same)
  then show ?thesis
    using assms by (simp add: tbinop_def broadcast_shapes_same)
qed

lemma sum_list_take_drop:
  fixes xs :: "real list"
  assumes "m + k \<le> length xs"
  shows "sum_list (take k (drop m xs)) = (\<Sum>j<k. xs ! (m + j))"
proof -
  have "sum_list (take k (drop m xs))
      = (\<Sum>j = 0..<length (take k (drop m xs)). take k (drop m xs) ! j)"
    by (rule sum_list_sum_nth)
  also have "\<dots> = (\<Sum>j<k. xs ! (m + j))"
    using assms by (intro sum.cong) auto
  finally show ?thesis .
qed

lemma sum_list_map2_upt:
  fixes ws :: "real list"
  assumes "length ws = N"
  shows "sum_list (map2 (*) ws (map g [0..<N])) = (\<Sum>i<N. ws ! i * g i)"
proof -
  have "sum_list (map2 (*) ws (map g [0..<N]))
      = (\<Sum>i = 0..<length (map2 (*) ws (map g [0..<N])). map2 (*) ws (map g [0..<N]) ! i)"
    by (rule sum_list_sum_nth)
  also have "\<dots> = (\<Sum>i<N. ws ! i * g i)"
    using assms by (intro sum.cong) auto
  finally show ?thesis .
qed

lemma dot_rows:
  assumes "length ns = N * D" "length ds = N * D"
  shows "dot \<lparr>shape = [N, D], data = ns\<rparr> \<lparr>shape = [N, D], data = ds\<rparr>
       = Inr \<lparr>shape = [N, 1],
              data = map (\<lambda>i. \<Sum>j<D. ns ! (i * D + j) * ds ! (i * D + j)) [0..<N]\<rparr>"
proof -
  have m: "tmul \<lparr>shape = [N, D], data = ns\<rparr> \<lparr>shape = [N, D], data = ds\<rparr>
      = Inr \<lparr>shape = [N, D], data = map2 (*) ns ds\<rparr>"
    unfolding tmul_def
    using assms
      tbinop_same_shape [of "\<lparr>shape = [N, D], data = ns\<rparr>" "[N, D]"
        "\<lparr>shape = [N, D], data = ds\<rparr>" "(*)"]
    by simp
  have row: "sum_list (take D (drop (i * D) (map2 (*) ns ds)))
      = (\<Sum>j<D. ns ! (i * D + j) * ds ! (i * D + j))" if "i < N" for i
  proof -
    from that have "Suc i \<le> N" by simp
    then have "Suc i * D \<le> N * D" by (rule mult_le_mono1)
    then have le: "i * D + D \<le> length (map2 (*) ns ds)"
      using assms by (simp add: add.commute)
    have "sum_list (take D (drop (i * D) (map2 (*) ns ds)))
        = (\<Sum>j<D. map2 (*) ns ds ! (i * D + j))"
      using le by (rule sum_list_take_drop)
    also have "\<dots> = (\<Sum>j<D. ns ! (i * D + j) * ds ! (i * D + j))"
      using le assms by (intro sum.cong) auto
    finally show ?thesis .
  qed
  have "map (\<lambda>i. sum_list (take D (drop (i * D) (map2 (*) ns ds)))) [0..<N]
      = map (\<lambda>i. \<Sum>j<D. ns ! (i * D + j) * ds ! (i * D + j)) [0..<N]"
    using row by simp
  then show ?thesis
    by (simp add: dot_def m sum_last_keepdim_def)
qed

lemma loss_orient_rows:
  assumes "out ''weights'' = Some \<lparr>shape = [N, 1], data = ws\<rparr>" "length ws = N"
    and "out ''normal'' = Some \<lparr>shape = [N, D], data = ns\<rparr>" "length ns = N * D"
    and "out ''t_dirs'' = Some \<lparr>shape = [N, D], data = ds\<rparr>" "length ds = N * D"
    and "out ''opacity'' = Some opacity"
  shows "loss_orient out =
      Inr (fl_div (\<Sum>i<N. ws ! i * (max (\<Sum>j<D. ns ! (i * D + j) * ds ! (i * D + j)) 0) ^ 2)
                  (real (length (filter (\<lambda>x. 0 < x) (data opacity)))))"
proof -
  let ?g = "\<lambda>i. \<Sum>j<D. ns ! (i * D + j) * ds ! (i * D + j)"
  let ?sq = "\<lambda>i. (max (?g i) 0) ^ 2"
  have d: "dot \<lparr>shape = [N, D], data = ns\<rparr> \<lparr>shape = [N, D], data = ds\<rparr>
       = Inr \<lparr>shape = [N, 1], data = map ?g [0..<N]\<rparr>"
    using assms(4,6) by (rule dot_rows)
  have c: "tsquare (clamp_min 0 \<lparr>shape = [N, 1], data = map ?g [0..<N]\<rparr>)
      = \<lparr>shape = [N, 1], data = map ?sq [0..<N]\<rparr>"
    by (simp add: tsquare_def clamp_min_def tmap_def comp_def)
  have m: "tmul (detach \<lparr>shape = [N, 1], data = ws\<rparr>) \<lparr>shape = [N, 1], data = map ?sq [0..<N]\<rparr>
      = Inr \<lparr>shape = [N, 1], data = map2 (*) ws (map ?sq [0..<N])\<rparr>"
    unfolding tmul_def detach_def
    using assms(2)
      tbinop_same_shape [of "\<lparr>shape = [N, 1], data = ws\<rparr>" "[N, 1]"
        "\<lparr>shape = [N, 1], data = map ?sq [0..<N]\<rparr>" "(*)"]
    by simp
  have s: "tsum \<lparr>shape = [N, 1], data = map2 (*) ws (map ?sq [0..<N])\<rparr>
      = (\<Sum>i<N. ws ! i * ?sq i)"
    unfolding tsum_def using assms(2) by (simp add: sum_list_map2_upt)
  have k: "count_gt0 opacity = length (filter (\<lambda>x. 0 < x) (data opacity))"
    by (simp add: count_gt0_def)
  show ?thesis
    by (simp only: loss_orient_def lookup_def assms(1,3,5,7) option.case sum.case d c m s k)
qed


text \<open>
  Claim C4. With \<open>lambda_orient\<close> positive and \<open>weights\<close> (one value for each of
  \<open>N\<close> samples), \<open>normal\<close>, \<open>t_dirs\<close> (\<open>N\<close> rows of \<open>D\<close> components) and
  \<open>opacity\<close> in the render output, the orientation loss is the sum over the samples
  of the weight times the squared positive part of the dot product of normal and ray
  direction, divided by the number of opacities above zero (a finite quotient when
  that number is positive); it is logged, and it enters the loss scaled by the weight.
\<close>

theorem orient_loss_value:
  assumes "out ''weights'' = Some \<lparr>shape = [N, 1], data = ws\<rparr>" "length ws = N"
    and "out ''normal'' = Some \<lparr>shape = [N, D], data = ns\<rparr>" "length ns = N * D"
    and "out ''t_dirs'' = Some \<lparr>shape = [N, D], data = ds\<rparr>" "length ds = N * D"
    and "out ''opacity'' = Some opacity"
    and "loss_weight C c ''lambda_orient'' = Inr w" "0 < w"
  shows "loss_orient out = Inr (orient_loss_spec N D ws ns ds (data opacity))
     \<and> (0 < length (filter (\<lambda>x. 0 < x) (data opacity)) \<longrightarrow>
          orient_loss_spec N D ws ns ds (data opacity) =
            Fin ((\<Sum>i<N. ws ! i * (max (\<Sum>j<D. ns ! (i * D + j) * ds ! (i * D + j)) 0) ^ 2)
                 / real (length (filter (\<lambda>x. 0 < x) (data opacity)))))
     \<and> orient_stage C c out a =
          Inr (fl_add (fst a) (fl_scale (orient_loss_spec N D ws ns ds (data opacity)) w),
               snd a @ [(''train/loss_orient'', orient_loss_spec N D ws ns ds (data opacity))])"
proof -
  let ?L = "orient_loss_spec N D ws ns ds (data opacity)"
  have lo: "loss_orient out = Inr ?L"
    unfolding orient_loss_spec_def using assms(1-7) by (rule loss_orient_rows)
  have fin: "0 < length (filter (\<lambda>x. 0 < x) (data opacity)) \<longrightarrow>
      ?L = Fin ((\<Sum>i<N. ws ! i * (max (\<Sum>j<D. ns ! (i * D + j) * ds ! (i * D + j)) 0) ^ 2)
                 / real (length (filter (\<lambda>x. 0 < x) (data opacity))))"
    by (simp add: orient_loss_spec_def fl_div_def)
  have st: "orient_stage C c out a =
          Inr (fl_add (fst a) (fl_scale ?L w), snd a @ [(''train/loss_orient'', ?L)])"
    using assms(3,8,9) by (simp add: orient_stage_def lo)
  show ?thesis
    by (intro conjI lo fin st)
qed

lemma ex_orient_half: "loss_orient (ex_out ex_opacity) = Inr (Fin (1 / 2))"
  by (simp add: loss_orient_def ex_out_def lookup_def dot_def tmul_def tbinop_def
      broadcast_shapes_def src_index_def sum_last_keepdim_def Let_def detach_def tsquare_def
      clamp_min_def tmap_def tsum_def count_gt0_def ex_opacity_def fl_div_def upt_rec)

theorem orient_loss_value_witness:
  "loss_orient (ex_out ex_opacity) = Inr (Fin (1 / 2))
   \<and> orient_loss_spec 2 3 [1 / 2, 1] [1, 0, 0, 0, 1, 0] [1, 0, 0, 0, - 1, 0] [0, 1 / 2]
      = Fin (1 / 2)
   \<and> orient_stage id (cfg (ex_fitted False (ex_weights 1 0) (ex_out ex_opacity)))
        (ex_out ex_opacity) (Fin 1, [])
      = Inr (Fin (3 / 2), [(''train/loss_orient'', Fin (1 / 2))])"
proof -
  let ?c = "cfg (ex_fitted False (ex_weights 1 0) (ex_out ex_opacity))"
  let ?L = "orient_loss_spec 2 3 [1 / 2, 1] [1, 0, 0, 0, 1, 0] [1, 0, 0, 0, - 1, 0]
              (data ex_opacity)"
  have k: "ex_out ex_opacity ''weights'' = Some \<lparr>shape = [2, 1], data = [1 / 2, 1]\<rparr>"
    "ex_out ex_opacity ''normal'' = Some \<lparr>shape = [2, 3], data = [1, 0, 0, 0, 1, 0]\<rparr>"
    "ex_out ex_opacity ''t_dirs'' = Some \<lparr>shape = [2, 3], data = [1, 0, 0, 0, - 1, 0]\<rparr>"
    "ex_out ex_opacity ''opacity'' = Some ex_opacity"
    by (simp_all add: ex_out_def)
  have l: "length [1 / 2, 1 :: real] = 2" "length [1, 0, 0, 0, 1, 0 :: real] = 2 * 3"
    "length [1, 0, 0, 0, - 1, 0 :: real] = 2 * 3"
    by simp_all
  have w: "loss_weight id ?c ''lambda_orient'' = Inr 1" "(0::real) < 1"
    by (simp_all add: ex_loss_weight)
  note T = orient_loss_value [OF k(1) l(1) k(2) l(2) k(3) l(3) k(4) w, of "(Fin 1, [])"]
  from T have "loss_orient (ex_out ex_opacity) = Inr ?L" by (rule conjunct1)
  then have L: "?L = Fin (1 / 2)" by (simp add: ex_orient_half)
  note T [THEN conjunct2, THEN conjunct2]
  then have st: "orient_stage id ?c (ex_out ex_opacity) (Fin 1, [])
      = Inr (Fin (3 / 2), [(''train/loss_orient'', Fin (1 / 2))])"
    unfolding L by simp
  from L have L': "orient_loss_spec 2 3 [1 / 2, 1] [1, 0, 0, 0, 1, 0] [1, 0, 0, 0, - 1, 0]
      [0, 1 / 2] = Fin (1 / 2)"
    by (simp add: ex_opacity_def)
  from ex_orient_half L' st show ?thesis by (intro conjI)
qed

section \<open>The sparsity term\<close>

lemma ex_opacity_sparsity: "loss_sparsity ex_opacity = Fin (10232457 / 2 ^ 25)"
  by (simp add: loss_sparsity_def f32_mean_def ex_opacity_def f32_eval)

lemma sparsity_term_overflows:
  "f32_round (10 ^ 20) = Fin (11368684 * 2 ^ 43)
   \<and> loss_sparsity \<lparr>shape = [1, 1, 1, 1], data = [11368684 * 2 ^ 43]\<rparr> = PInf"
  by (simp add: loss_sparsity_def f32_mean_def f32_eval)

lemma loss_sparsity_empty: "data opacity = [] \<Longrightarrow> loss_sparsity opacity = NaN"
  by (simp add: loss_sparsity_def f32_mean_def f32_round_def)

lemma tenth_less_f32: "1 / 10 < f32_tenth"
  by (simp add: f32_tenth_def)

text \<open>
  Claim C6, as the code has it. The sparsity term of an opacity with at least one ray
  is the \<open>float32\<close> mean over the rays of \<open>sqrt (opacity\<^sup>2 + 0.01)\<close>, every operation
  rounded to \<open>float32\<close>. The term of each ray is at least the \<open>float32\<close> square root
  of the \<open>float32\<close> value of \<open>0.01\<close>; that is \<open>f32_tenth\<close>, the \<open>float32\<close> value nearest
  to \<open>0.1\<close>, which lies above \<open>0.1\<close>. With every opacity 0 each ray has this least
  term, and no opacity of as many rays gives a smaller mean than the all-zero one; for
  a single ray the mean is at least \<open>0.1\<close>. The least value is taken not only at 0:
  whenever every opacity is at most \<open>2\<^sup>-\<^sup>1\<^sup>5\<close> in magnitude, the rounding absorbs the
  squares and the term is that of the all-zero opacity. Without any ray the mean is
  \<open>nan\<close>.
\<close>

theorem sparsity_term_float32:
  "(data opacity \<noteq> [] \<longrightarrow>
      loss_sparsity opacity = f32_mean (map sparsity_ray (data opacity))
      \<and> (\<forall>x\<in>set (data opacity). fl_le (Fin f32_tenth) (sparsity_ray x))
      \<and> sparsity_ray 0 = Fin f32_tenth
      \<and> f32_sqrt (f32_round (1 / 100)) = Fin f32_tenth
      \<and> 1 / 10 < f32_tenth
      \<and> (length (data opacity) \<le> 2 ^ 127 \<longrightarrow>
            fl_le (loss_sparsity (zeros_like opacity)) (loss_sparsity opacity))
      \<and> ((\<forall>x\<in>set (data opacity). \<bar>x\<bar> \<le> 1 / 2 ^ 15) \<longrightarrow>
            loss_sparsity opacity = loss_sparsity (zeros_like opacity))
      \<and> (length (data opacity) = 1 \<longrightarrow> fl_le (Fin (1 / 10)) (loss_sparsity opacity)))
   \<and> (data opacity = [] \<longrightarrow> loss_sparsity opacity = NaN)"
proof (intro conjI impI)
  let ?xs = "data opacity"
  let ?zs = "map (\<lambda>x. 0 :: real) ?xs"
  have z: "data (zeros_like opacity) = ?zs" by (simp add: zeros_like_def)
  have zr: "map sparsity_ray ?zs = map (\<lambda>x. Fin f32_tenth) ?xs"
    by (simp add: comp_def sparsity_ray_0)
  show "loss_sparsity opacity = f32_mean (map sparsity_ray ?xs)"
    by (rule loss_sparsity_rays)
  show "\<forall>x\<in>set ?xs. fl_le (Fin f32_tenth) (sparsity_ray x)"
    by (intro ballI sparsity_ray_ge)
  show "sparsity_ray 0 = Fin f32_tenth" by (rule sparsity_ray_0)
  show "f32_sqrt (f32_round (1 / 100)) = Fin f32_tenth"
    by (simp only: f32_hundredth f32_sqrt_hundredth)
  show "1 / 10 < f32_tenth" by (rule tenth_less_f32)
  have mono: "fl_le (loss_sparsity (zeros_like opacity)) (loss_sparsity opacity)"
    if ne: "?xs \<noteq> []" and le: "length ?xs \<le> 2 ^ 127"
  proof -
    have "list_all2 fl_le (map (\<lambda>x. Fin f32_tenth) ?xs) (map sparsity_ray ?xs)"
      by (simp add: list_all2_map1 list_all2_map2 list_all2_same sparsity_ray_ge)
    moreover have "\<forall>v\<in>set (map (\<lambda>x. Fin f32_tenth :: fl) ?xs). fl_le (Fin 0) v"
      by (auto simp: f32_tenth_def)
    moreover have "map (\<lambda>x. Fin f32_tenth :: fl) ?xs \<noteq> []"
      "length (map (\<lambda>x. Fin f32_tenth :: fl) ?xs) \<le> 2 ^ 127"
      using ne le by simp_all
    ultimately have "fl_le (f32_mean (map (\<lambda>x. Fin f32_tenth) ?xs))
                           (f32_mean (map sparsity_ray ?xs))"
      by (rule f32_mean_mono)
    then show ?thesis by (simp only: loss_sparsity_rays z zr)
  qed
  show "fl_le (loss_sparsity (zeros_like opacity)) (loss_sparsity opacity)"
    if "?xs \<noteq> []" "length ?xs \<le> 2 ^ 127"
    using that by (rule mono)
  show "loss_sparsity opacity = loss_sparsity (zeros_like opacity)"
    if "\<forall>x\<in>set ?xs. \<bar>x\<bar> \<le> 1 / 2 ^ 15"
  proof -
    from that have "map sparsity_ray ?xs = map (\<lambda>x. Fin f32_tenth) ?xs"
      by (simp add: sparsity_ray_absorbed)
    then show ?thesis by (simp only: loss_sparsity_rays z zr)
  qed
  show "fl_le (Fin (1 / 10)) (loss_sparsity opacity)"
    if ne: "?xs \<noteq> []" and one: "length ?xs = 1"
  proof -
    from one have "?zs = [0]" by (cases ?xs) simp_all
    then have "loss_sparsity (zeros_like opacity) = f32_mean (map sparsity_ray [0])"
      by (simp only: loss_sparsity_rays z)
    also have "\<dots> = loss_sparsity \<lparr>shape = [], data = [0]\<rparr>"
      by (simp add: loss_sparsity_rays)
    finally have "loss_sparsity (zeros_like opacity) = Fin f32_tenth"
      by (simp only: loss_sparsity_single_zero)
    moreover have "length ?xs \<le> 2 ^ 127" using one by simp
    ultimately have "fl_le (Fin f32_tenth) (loss_sparsity opacity)"
      using mono [OF ne] by simp
    moreover have "fl_le (Fin (1 / 10)) (Fin f32_tenth)"
      using tenth_le_f32 by (simp only: fl_le.simps)
    ultimately show ?thesis by (rule fl_le_trans [rotated])
  qed
  show "loss_sparsity opacity = NaN" if "?xs = []"
    using that by (rule loss_sparsity_empty)
qed

theorem sparsity_term_float32_witness:
  "fl_le (loss_sparsity (zeros_like ex_opacity)) (loss_sparsity ex_opacity)
   \<and> fl_le (Fin f32_tenth) (sparsity_ray (1 / 2))
   \<and> loss_sparsity \<lparr>shape = [1, 1, 1, 1], data = [1 / 2 ^ 17]\<rparr>
        = loss_sparsity (zeros_like \<lparr>shape = [1, 1, 1, 1], data = [1 / 2 ^ 17]\<rparr>)
   \<and> fl_le (Fin (1 / 10)) (loss_sparsity \<lparr>shape = [1, 1, 1, 1], data = [1 / 2 ^ 17]\<rparr>)
   \<and> loss_sparsity \<lparr>shape = [1, 0, 0, 1], data = []\<rparr> = NaN"
proof -
  let ?t = "\<lparr>shape = [1, 1, 1, 1], data = [1 / 2 ^ 17 :: real]\<rparr>"
  let ?e = "\<lparr>shape = [1, 0, 0, 1], data = [] :: real list\<rparr>"
  have a: "data ex_opacity \<noteq> []" "length (data ex_opacity) \<le> 2 ^ 127"
    "(1 / 2 :: real) \<in> set (data ex_opacity)"
    by (simp_all add: ex_opacity_def)
  have b: "data ?t \<noteq> []" "length (data ?t) = 1" "\<forall>x\<in>set (data ?t). \<bar>x\<bar> \<le> 1 / 2 ^ 15"
    by simp_all
  have c: "data ?e = []" by simp
  from sparsity_term_float32 [of ex_opacity] a
  have 1: "fl_le (loss_sparsity (zeros_like ex_opacity)) (loss_sparsity ex_opacity)"
    and 2: "fl_le (Fin f32_tenth) (sparsity_ray (1 / 2))"
    by blast+
  from sparsity_term_float32 [of ?t] b
  have 3: "loss_sparsity ?t = loss_sparsity (zeros_like ?t)"
    and 4: "fl_le (Fin (1 / 10)) (loss_sparsity ?t)"
    by blast+
  from sparsity_term_float32 [of ?e] c
  have 5: "loss_sparsity ?e = NaN" by blast
  from 1 2 3 4 5 show ?thesis by (intro conjI)
qed

text \<open>
  The opacity \<open>2\<^sup>-\<^sup>1\<^sup>7\<close>, a \<open>float32\<close> value that is not 0, has the sparsity term of
  opacity 0, and so has \<open>0.00001\<close> as a \<open>float32\<close>; that term is not \<open>0.1\<close>; and an
  opacity without any ray has the term \<open>nan\<close>, which is not at least \<open>0.1\<close>.
\<close>

theorem sparsity_minimum_counterexample:
  "f32_round (1 / 2 ^ 17) = Fin (1 / 2 ^ 17)
   \<and> (1 / 2 ^ 17 :: real) \<noteq> 0
   \<and> loss_sparsity \<lparr>shape = [1, 1, 1, 1], data = [1 / 2 ^ 17]\<rparr> = Fin f32_tenth
   \<and> loss_sparsity \<lparr>shape = [1, 1, 1, 1], data = [0]\<rparr> = Fin f32_tenth
   \<and> f32_round (1 / 100000) = Fin (10995116 / 2 ^ 40)
   \<and> loss_sparsity \<lparr>shape = [1, 1, 1, 1], data = [10995116 / 2 ^ 40]\<rparr> = Fin f32_tenth
   \<and> f32_tenth \<noteq> 1 / 10
   \<and> loss_sparsity \<lparr>shape = [1, 0, 0, 1], data = []\<rparr> = NaN
   \<and> \<not> fl_le (Fin (1 / 10)) (loss_sparsity \<lparr>shape = [1, 0, 0, 1], data = []\<rparr>)"
  by (simp add: loss_sparsity_def f32_mean_def f32_tenth_def f32_eval)

section \<open>The opacity binarisation term\<close>

lemma binary_entropy_pos:
  assumes "0 < p" "p < 1"
  shows "0 < binary_entropy p"
proof -
  have "ln p < 0" using assms by simp
  then have 1: "p * ln p < 0" using assms by (simp add: mult_pos_neg)
  have "ln (1 - p) < 0" using assms by simp
  then have 2: "(1 - p) * ln (1 - p) < 0" using assms by (simp add: mult_pos_neg)
  from 1 2 show ?thesis by (simp add: binary_entropy_def)
qed









lemma clamp_bounds: "0 < clamp_lo" "clamp_lo < 1 / 2" "1 / 2 < clamp_hi" "clamp_hi < 1"
  by (simp_all add: clamp_lo_def clamp_hi_def)


lemma opacity_clamped_clamp: "opacity_clamped t = clamp clamp_lo clamp_hi t"
  by (simp only: opacity_clamped_def f32_value_lo f32_value_hi)







lemma opaque_term_at_zero_and_one:
  "opacity_clamped \<lparr>shape = [1, 1, 1, 1], data = [0]\<rparr>
     = \<lparr>shape = [1, 1, 1, 1], data = [clamp_lo]\<rparr>
   \<and> opacity_clamped \<lparr>shape = [1, 1, 1, 1], data = [1]\<rparr>
     = \<lparr>shape = [1, 1, 1, 1], data = [clamp_hi]\<rparr>
   \<and> loss_opaque \<lparr>shape = [1, 1, 1, 1], data = [0]\<rparr> = Fin (binary_entropy clamp_lo)
   \<and> loss_opaque \<lparr>shape = [1, 1, 1, 1], data = [1]\<rparr> = Fin (binary_entropy clamp_hi)
   \<and> 0 < binary_entropy clamp_lo \<and> 0 < binary_entropy clamp_hi"
proof -
  have 1: "opacity_clamped \<lparr>shape = [1, 1, 1, 1], data = [0]\<rparr>
     = \<lparr>shape = [1, 1, 1, 1], data = [clamp_lo]\<rparr>"
    and 2: "opacity_clamped \<lparr>shape = [1, 1, 1, 1], data = [1]\<rparr>
     = \<lparr>shape = [1, 1, 1, 1], data = [clamp_hi]\<rparr>"
    using clamp_bounds by (simp_all add: opacity_clamped_clamp clamp_def tmap_def min_def max_def)
  have 3: "loss_opaque \<lparr>shape = [1, 1, 1, 1], data = [0]\<rparr> = Fin (binary_entropy clamp_lo)"
    and 4: "loss_opaque \<lparr>shape = [1, 1, 1, 1], data = [1]\<rparr> = Fin (binary_entropy clamp_hi)"
    using clamp_bounds by (simp_all add: loss_opaque_Fin opacity_clamped_data min_def max_def)
  have 5: "0 < binary_entropy clamp_lo" and 6: "0 < binary_entropy clamp_hi"
    using clamp_bounds by (auto intro!: binary_entropy_pos)
  from 1 2 3 4 5 6 show ?thesis by (intro conjI)
qed



end
